theory Spec2Isabelle
  imports Complex_Main "HOL-Library.Sublist"
begin

section \<open>JavaScript strings\<close>

text \<open>
  Strings are lists of characters, a character being a UTF-16 code unit below 256 (the
  Latin-1 range). The helpers below are the \<^verbatim>\<open>String.prototype\<close> methods the
  modules call: \<^verbatim>\<open>includes\<close>, \<^verbatim>\<open>startsWith\<close>, \<^verbatim>\<open>toLowerCase\<close> and
  \<^verbatim>\<open>split(/\s+/)\<close>. \<^verbatim>\<open>substring(0, n)\<close> is \<^term>\<open>take n\<close>.
\<close>

fun startsWith :: "string \<Rightarrow> string \<Rightarrow> bool" where
  "startsWith s [] = True"
| "startsWith [] (p # ps) = False"
| "startsWith (c # cs) (p # ps) = (c = p \<and> startsWith cs ps)"

fun str_includes :: "string \<Rightarrow> string \<Rightarrow> bool" where
  "str_includes [] sub = (sub = [])"
| "str_includes (c # cs) sub = (startsWith (c # cs) sub \<or> str_includes cs sub)"

text \<open>
  The letters \<^verbatim>\<open>toLowerCase\<close> changes in this range: \<open>A\<close> to \<open>Z\<close>, and the
  accented capitals \<open>0xC0\<close> to \<open>0xDE\<close> without the multiplication sign \<open>0xD7\<close>; each
  moves up by \<open>0x20\<close>.
\<close>

definition accentedCapitals :: string where
  "accentedCapitals = [
      CHR 0xC0, CHR 0xC1, CHR 0xC2, CHR 0xC3, CHR 0xC4, CHR 0xC5, CHR 0xC6, CHR 0xC7,
      CHR 0xC8, CHR 0xC9, CHR 0xCA, CHR 0xCB, CHR 0xCC, CHR 0xCD, CHR 0xCE, CHR 0xCF,
      CHR 0xD0, CHR 0xD1, CHR 0xD2, CHR 0xD3, CHR 0xD4, CHR 0xD5, CHR 0xD6, CHR 0xD8,
      CHR 0xD9, CHR 0xDA, CHR 0xDB, CHR 0xDC, CHR 0xDD, CHR 0xDE]"

definition accentedSmalls :: string where
  "accentedSmalls = [
      CHR 0xE0, CHR 0xE1, CHR 0xE2, CHR 0xE3, CHR 0xE4, CHR 0xE5, CHR 0xE6, CHR 0xE7,
      CHR 0xE8, CHR 0xE9, CHR 0xEA, CHR 0xEB, CHR 0xEC, CHR 0xED, CHR 0xEE, CHR 0xEF,
      CHR 0xF0, CHR 0xF1, CHR 0xF2, CHR 0xF3, CHR 0xF4, CHR 0xF5, CHR 0xF6, CHR 0xF8,
      CHR 0xF9, CHR 0xFA, CHR 0xFB, CHR 0xFC, CHR 0xFD, CHR 0xFE]"

definition toLowerChar :: "char \<Rightarrow> char" where
  "toLowerChar c =
     (case map_of (zip (''ABCDEFGHIJKLMNOPQRSTUVWXYZ'' @ accentedCapitals)
                       (''abcdefghijklmnopqrstuvwxyz'' @ accentedSmalls)) c of
        None \<Rightarrow> c
      | Some l \<Rightarrow> l)"

definition toLowerCase :: "string \<Rightarrow> string" where
  "toLowerCase s = map toLowerChar s"

definition isWhitespace :: "char \<Rightarrow> bool" where
  "isWhitespace c =
     (c \<in> set [CHR '' '', CHR 0x09, CHR 0x0A, CHR 0x0B, CHR 0x0C, CHR 0x0D, CHR 0xA0])"

text \<open>
  \<^verbatim>\<open>s.split(/\s+/)\<close>: every maximal run of white space is one separator, and a
  separator at either end leaves an empty first or last word. In this range of
  characters \<^verbatim>\<open>\s\<close> is the space, tab, line feed, vertical tab, form feed,
  carriage return and the no-break space.
\<close>

fun splitWords :: "string \<Rightarrow> bool \<Rightarrow> string \<Rightarrow> string list" where
  "splitWords cur inSeparator [] = [cur]"
| "splitWords cur inSeparator (c # cs) =
     (if isWhitespace c then
        (if inSeparator then splitWords cur True cs else cur # splitWords [] True cs)
      else splitWords (cur @ [c]) False cs)"

definition split_ws :: "string \<Rightarrow> string list" where
  "split_ws s = splitWords [] False s"


section \<open>Change events\<close>

text \<open>
  The change data object built by \<^verbatim>\<open>ContentDetectionModule._analyzeChangeGroup\<close>
  and read by the later stages. The fields \<^verbatim>\<open>element\<close>, \<^verbatim>\<open>timestamp\<close>,
  \<^verbatim>\<open>mutations\<close> and \<^verbatim>\<open>context.position\<close> are never read by the functions
  modelled here and are left out. A missing \<^verbatim>\<open>context\<close> is \<^term>\<open>None\<close>.
\<close>

datatype change_kind = Addition | Removal | Replacement | Attribute | TextChange | Group | Unknown

record content_info =
  text_content :: string
  html_content :: string
  old_content :: string
  new_content :: string

record parent_context =
  heading :: string
  section_name :: string

record context_info =
  role :: string
  label :: string
  parentContext :: parent_context
  isForm :: bool
  isInteractive :: bool
  isLiveRegion :: bool

record change_data =
  change_type :: change_kind
  change_content :: content_info
  change_context :: "context_info option"

datatype js_error = TypeError


section \<open>Summarization engine (ai-summarization.js)\<close>

record summ_options =
  maxSummaryLength :: nat
  minContentLength :: nat
  preserveContext :: bool
  localProcessingOnly :: bool

definition default_summ_options :: summ_options where
  "default_summ_options =
     \<lparr>maxSummaryLength = 150, minContentLength = 20,
      preserveContext = True, localProcessingOnly = False\<rparr>"

record context_item =
  item_summary :: string
  item_changeType :: change_kind
  item_elementRole :: string
  item_elementLabel :: string

definition maxContextItems :: nat where
  "maxContextItems = 5"

record summary_data =
  original :: change_data
  summary :: string
  priority :: int
  isDirectSummary :: bool

definition extractRelevantText :: "change_data \<Rightarrow> string" where
  "extractRelevantText changeData =
     (let c = change_content changeData in
      if new_content c \<noteq> [] then new_content c
      else if text_content c \<noteq> [] then text_content c
      else [])"

subsection \<open>Priority scoring\<close>

definition hasErrorWord :: "string \<Rightarrow> bool" where
  "hasErrorWord s = (str_includes s ''error'' \<or> str_includes s ''Error'')"

definition hasAlertKeyword :: "string \<Rightarrow> bool" where
  "hasAlertKeyword s =
     (str_includes s ''error'' \<or> str_includes s ''Error'' \<or>
      str_includes s ''alert'' \<or> str_includes s ''Alert'' \<or>
      str_includes s ''warning'' \<or> str_includes s ''Warning'')"

text \<open>
  \<^verbatim>\<open>_determinePriority\<close>: the local variable \<^verbatim>\<open>priority\<close> is threaded through
  the statements in source order (\<open>p0\<close> \<dots> \<open>p6\<close>).
\<close>

definition determinePriority :: "change_data \<Rightarrow> string \<Rightarrow> int" where
  "determinePriority changeData s =
     (let p0 = 5;
          p4 = (case change_context changeData of
                  None \<Rightarrow> p0
                | Some ctx \<Rightarrow>
                    (let p1 = (if isLiveRegion ctx then p0 + 3 else p0);
                         p2 = (if isInteractive ctx then p1 + 1 else p1);
                         p3 = (if isForm ctx \<and> hasErrorWord s then p2 + 3 else p2)
                     in if role ctx = ''heading'' then p3 + 2 else p3));
          p5 = (if hasAlertKeyword s then p4 + 2 else p4);
          p6 = (case change_type changeData of
                  Addition \<Rightarrow> p5 + 1
                | Removal \<Rightarrow> p5 - 1
                | Group \<Rightarrow> p5 + 1
                | _ \<Rightarrow> p5)
      in max 1 (min 10 p6))"

text \<open>
  The scoring rule in the specification's words: each adjustment is a term of its own,
  the terms are added to the neutral score 5, and the sum is clamped once.
\<close>

definition adj_liveRegion :: "change_data \<Rightarrow> int" where
  "adj_liveRegion cd = (case change_context cd of Some ctx \<Rightarrow> if isLiveRegion ctx then 3 else 0 | None \<Rightarrow> 0)"

definition adj_interactive :: "change_data \<Rightarrow> int" where
  "adj_interactive cd = (case change_context cd of Some ctx \<Rightarrow> if isInteractive ctx then 1 else 0 | None \<Rightarrow> 0)"

definition adj_formError :: "change_data \<Rightarrow> string \<Rightarrow> int" where
  "adj_formError cd s =
     (case change_context cd of Some ctx \<Rightarrow> if isForm ctx \<and> hasErrorWord s then 3 else 0 | None \<Rightarrow> 0)"

definition adj_heading :: "change_data \<Rightarrow> int" where
  "adj_heading cd = (case change_context cd of Some ctx \<Rightarrow> if role ctx = ''heading'' then 2 else 0 | None \<Rightarrow> 0)"

definition adj_keyword :: "string \<Rightarrow> int" where
  "adj_keyword s = (if hasAlertKeyword s then 2 else 0)"

definition adj_kind :: "change_kind \<Rightarrow> int" where
  "adj_kind k = (case k of Addition \<Rightarrow> 1 | Removal \<Rightarrow> - 1 | Group \<Rightarrow> 1 | _ \<Rightarrow> 0)"

definition clamp_priority :: "int \<Rightarrow> int" where
  "clamp_priority p = max 1 (min 10 p)"

definition priority_spec :: "change_data \<Rightarrow> string \<Rightarrow> int" where
  "priority_spec cd s =
     clamp_priority (5 + adj_liveRegion cd + adj_interactive cd + adj_formError cd s
                       + adj_heading cd + adj_keyword s + adj_kind (change_type cd))"

subsection \<open>Direct summaries\<close>

definition roleMap :: "string \<Rightarrow> string option" where
  "roleMap = map_of
     [(''button'', ''Button''), (''link'', ''Link''), (''checkbox'', ''Checkbox''),
      (''radio'', ''Radio button''), (''textbox'', ''Text field''),
      (''combobox'', ''Dropdown''), (''heading'', ''Heading'')]"

text \<open>
  \<^verbatim>\<open>roleMap\<close> is an object literal, so \<^verbatim>\<open>roleMap[context.role]\<close> also finds
  the members it inherits from \<^verbatim>\<open>Object.prototype\<close>. They are functions, and
  \<^verbatim>\<open>__proto__\<close> is the prototype object; all are truthy, and inside the template
  string they print as the browser's engine prints them.
\<close>

definition inheritedMember :: "string \<Rightarrow> string option" where
  "inheritedMember = map_of
     [(''constructor'', ''function Object() { [native code] }''),
      (''__defineGetter__'', ''function __defineGetter__() { [native code] }''),
      (''__defineSetter__'', ''function __defineSetter__() { [native code] }''),
      (''hasOwnProperty'', ''function hasOwnProperty() { [native code] }''),
      (''__lookupGetter__'', ''function __lookupGetter__() { [native code] }''),
      (''__lookupSetter__'', ''function __lookupSetter__() { [native code] }''),
      (''isPrototypeOf'', ''function isPrototypeOf() { [native code] }''),
      (''propertyIsEnumerable'', ''function propertyIsEnumerable() { [native code] }''),
      (''toString'', ''function toString() { [native code] }''),
      (''valueOf'', ''function valueOf() { [native code] }''),
      (''__proto__'', ''[object Object]''),
      (''toLocaleString'', ''function toLocaleString() { [native code] }'')]"

text \<open>\<^verbatim>\<open>roleMap[context.role] || context.role\<close>, as it prints.\<close>

definition roleNameOf :: "string \<Rightarrow> string" where
  "roleNameOf r =
     (case roleMap r of
        Some n \<Rightarrow> n
      | None \<Rightarrow> (case inheritedMember r of Some printed \<Rightarrow> printed | None \<Rightarrow> r))"

definition directSummaryText :: "change_data \<Rightarrow> string \<Rightarrow> string" where
  "directSummaryText changeData txt =
     (case change_context changeData of
        None \<Rightarrow> txt
      | Some ctx \<Rightarrow>
          (let s1 = (if role ctx \<noteq> [] \<and> isInteractive ctx then
                       (let roleName = roleNameOf (role ctx)
                        in case change_type changeData of
                             Addition \<Rightarrow> roleName @ '' added: '' @ txt
                           | Removal \<Rightarrow> roleName @ '' removed''
                           | TextChange \<Rightarrow> roleName @ '' updated to: '' @ txt
                           | Attribute \<Rightarrow> roleName @ '' state changed: '' @ txt
                           | _ \<Rightarrow> roleName @ '': '' @ txt)
                     else txt);
               s2 = (if isForm ctx \<and> label ctx \<noteq> [] then
                       ''Form field '' @ [CHR 0x22] @ label ctx @ [CHR 0x22] @ '' updated to: '' @ txt
                     else s1)
           in if isLiveRegion ctx then txt else s2))"

definition createDirectSummary :: "change_data \<Rightarrow> string \<Rightarrow> summary_data" where
  "createDirectSummary changeData txt =
     (let s = directSummaryText changeData txt in
      \<lparr>original = changeData, summary = s,
       priority = determinePriority changeData s, isDirectSummary = True\<rparr>)"

subsection \<open>Generated summaries\<close>

record summarization_context =
  changeType :: change_kind
  elementRole :: string
  elementLabel :: string
  ctxInteractive :: bool
  ctxForm :: bool
  ctxLiveRegion :: bool
  parentHeading :: string
  parentSection :: string
  previousContext :: "context_item list"

text \<open>\<^verbatim>\<open>xs.slice(-n)\<close>: the last \<open>n\<close> elements, all of them when there are fewer.\<close>

definition slice_last :: "nat \<Rightarrow> 'a list \<Rightarrow> 'a list" where
  "slice_last n xs = drop (length xs - n) xs"

definition buildSummarizationContext ::
    "context_item list \<Rightarrow> change_data \<Rightarrow> summarization_context" where
  "buildSummarizationContext contextHistory changeData =
     (case change_context changeData of
        None \<Rightarrow>
          \<lparr>changeType = change_type changeData, elementRole = [], elementLabel = [],
           ctxInteractive = False, ctxForm = False, ctxLiveRegion = False,
           parentHeading = [], parentSection = [],
           previousContext = slice_last 2 contextHistory\<rparr>
      | Some ctx \<Rightarrow>
          \<lparr>changeType = change_type changeData, elementRole = role ctx, elementLabel = label ctx,
           ctxInteractive = isInteractive ctx, ctxForm = isForm ctx,
           ctxLiveRegion = isLiveRegion ctx,
           parentHeading = heading (parentContext ctx),
           parentSection = section_name (parentContext ctx),
           previousContext = slice_last 2 contextHistory\<rparr>)"

definition orElse :: "string \<Rightarrow> string \<Rightarrow> string" where
  "orElse s d = (if s \<noteq> [] then s else d)"

definition mentionsFailure :: "string \<Rightarrow> bool" where
  "mentionsFailure t = (str_includes t ''error'' \<or> str_includes t ''Error'' \<or> str_includes t ''failed'')"

definition attributeSummary :: "string \<Rightarrow> string" where
  "attributeSummary t =
     (if startsWith t ''aria-'' then ''Accessibility state changed: '' @ t
      else ''Element state changed: '' @ t)"

text \<open>
  \<^verbatim>\<open>_simulateAISummarization\<close>. The 50 ms delay has no effect on the value. The
  argument \<open>text0\<close> is the text passed in; \<open>t\<close> is the local after the first
  truncation.
\<close>

definition simulateAISummarization ::
    "summ_options \<Rightarrow> string \<Rightarrow> summarization_context \<Rightarrow> change_data \<Rightarrow> string" where
  "simulateAISummarization opts text0 c changeData =
     (let t = (if length text0 > maxSummaryLength opts * 2
               then take (maxSummaryLength opts * 2) text0 else text0);
          s = (case change_type changeData of
                 Addition \<Rightarrow>
                   (if ctxLiveRegion c then t
                    else if elementRole c = ''heading'' then ''New section: '' @ t
                    else if ctxForm c then ''New form field added: '' @ orElse (elementLabel c) t
                    else if ctxInteractive c then
                      ''New '' @ orElse (elementRole c) ''interactive element'' @ '' added: '' @ t
                    else if mentionsFailure t then ''Error message: '' @ t
                    else if length t > 100 then ''New content added: '' @ take 100 t @ ''...''
                    else ''New content: '' @ t)
               | Removal \<Rightarrow>
                   (if ctxInteractive c then orElse (elementRole c) ''Element'' @ '' removed''
                    else ''Content removed'')
               | TextChange \<Rightarrow>
                   (if ctxForm c then
                      (let lbl = (if elementLabel c \<noteq> []
                                  then [CHR 0x22] @ elementLabel c @ [CHR 0x22] else [])
                       in ''Form field '' @ lbl @ '' updated to: '' @ t)
                    else if ctxLiveRegion c then t
                    else if mentionsFailure t then ''Error message: '' @ t
                    else ''Updated content: '' @ t)
               | Attribute \<Rightarrow> attributeSummary t
               | Group \<Rightarrow> ''Multiple updates: '' @ take (maxSummaryLength opts) t
               | _ \<Rightarrow> t)
      in if length s > maxSummaryLength opts
         then take (maxSummaryLength opts - 3) s @ ''...'' else s)"

text \<open>
  \<^verbatim>\<open>_generateLocalSummary\<close> reads \<^verbatim>\<open>context.role\<close> and \<^verbatim>\<open>context.isForm\<close>
  without a guard: with no context object the \<^verbatim>\<open>addition\<close> and \<^verbatim>\<open>text\<close>
  branches throw a TypeError.
\<close>

definition generateLocalSummary :: "summ_options \<Rightarrow> change_data \<Rightarrow> string \<Rightarrow> js_error + string" where
  "generateLocalSummary opts changeData t =
     (if length t > maxSummaryLength opts then Inr (take (maxSummaryLength opts - 3) t @ ''...'')
      else case change_type changeData of
             Addition \<Rightarrow>
               (case change_context changeData of
                  None \<Rightarrow> Inl TypeError
                | Some ctx \<Rightarrow>
                    if role ctx = ''heading'' then Inr (''New section: '' @ t)
                    else if isInteractive ctx then
                      Inr (''New '' @ orElse (role ctx) ''element'' @ '' added: '' @ t)
                    else Inr (''New content: '' @ t))
           | Removal \<Rightarrow> Inr (''Content removed: '' @ t)
           | TextChange \<Rightarrow>
               (case change_context changeData of
                  None \<Rightarrow> Inl TypeError
                | Some ctx \<Rightarrow>
                    if isForm ctx then Inr (''Form updated: '' @ t)
                    else if isLiveRegion ctx then Inr t
                    else Inr (''Updated: '' @ t))
           | Attribute \<Rightarrow> Inr (attributeSummary t)
           | Group \<Rightarrow> Inr (''Multiple updates: '' @ t)
           | _ \<Rightarrow> Inr t)"

definition generateSummary ::
    "summ_options \<Rightarrow> context_item list \<Rightarrow> change_data \<Rightarrow> string \<Rightarrow> js_error + string" where
  "generateSummary opts contextHistory changeData t =
     (if localProcessingOnly opts then generateLocalSummary opts changeData t
      else Inr (simulateAISummarization opts t
                  (buildSummarizationContext contextHistory changeData) changeData))"

definition updateContextHistory ::
    "context_item list \<Rightarrow> change_data \<Rightarrow> string \<Rightarrow> context_item list" where
  "updateContextHistory contextHistory changeData s =
     (let pushed = contextHistory @
            [\<lparr>item_summary = s, item_changeType = change_type changeData,
              item_elementRole = (case change_context changeData of Some ctx \<Rightarrow> role ctx | None \<Rightarrow> []),
              item_elementLabel = (case change_context changeData of Some ctx \<Rightarrow> label ctx | None \<Rightarrow> [])\<rparr>]
      in if length pushed > maxContextItems then tl pushed else pushed)"

text \<open>
  \<^verbatim>\<open>_processSingleChange\<close>: the engine's only mutable state is the context
  history, passed in and returned. The \<^verbatim>\<open>catch\<close> branch is the \<^term>\<open>Inl\<close> case.
\<close>

definition processSingleChange ::
    "summ_options \<Rightarrow> context_item list \<Rightarrow> change_data \<Rightarrow> summary_data \<times> context_item list" where
  "processSingleChange opts contextHistory changeData =
     (let relevantText = extractRelevantText changeData in
      if length relevantText < minContentLength opts then
        (createDirectSummary changeData relevantText, contextHistory)
      else
        (case generateSummary opts contextHistory changeData relevantText of
           Inl e \<Rightarrow> (createDirectSummary changeData relevantText, contextHistory)
         | Inr s \<Rightarrow>
             (\<lparr>original = changeData, summary = s,
               priority = determinePriority changeData s, isDirectSummary = False\<rparr>,
              if preserveContext opts then updateContextHistory contextHistory changeData s
              else contextHistory)))"


section \<open>Preference filter (priority-filtering.js)\<close>

subsection \<open>Preferences and filter state\<close>

text \<open>
  Objects used as dictionaries are maps. A site entry and the argument of
  \<^verbatim>\<open>updatePreferences\<close> are partial objects: a property that is absent is
  \<^term>\<open>None\<close>. The stored object handed to \<^verbatim>\<open>initializePreferences\<close> is read
  only through its top-level properties \<^verbatim>\<open>global\<close> and \<^verbatim>\<open>sites\<close>; any other
  property it carries is copied into \<^verbatim>\<open>userPreferences\<close> and never read again, and
  is left out. Time stamps (\<^verbatim>\<open>Date.now()\<close>) are recorded but never read, and are
  left out as well.

  The entry of a category is an object \<^verbatim>\<open>{enabled, minPriority}\<close>. The dictionaries
  hold references to such objects: a spread copies the references, and the learning pass
  writes \<^verbatim>\<open>minPriority\<close> through the reference, so that every dictionary that holds
  the same object sees the new value. \<open>prefsObjects\<close> in the filter state is the
  content of every such object, those the constructor creates and those a caller hands
  in; a caller that creates an object writes it at a reference not in use.
\<close>

record type_prefs =
  enabled :: bool
  minPriority :: int

type_synonym prefs_ref = nat

record global_prefs =
  priorityThreshold :: int
  contentTypePreferences :: "string \<rightharpoonup> prefs_ref"

record partial_prefs =
  opt_priorityThreshold :: "int option"
  opt_contentTypePreferences :: "(string \<rightharpoonup> prefs_ref) option"

record user_preferences =
  global :: global_prefs
  sites :: "string \<rightharpoonup> partial_prefs"

record stored_prefs =
  stored_global :: "global_prefs option"
  stored_sites :: "(string \<rightharpoonup> partial_prefs) option"

datatype interaction = Viewed | Dismissed | Clicked

record interaction_record =
  rec_summary :: string
  rec_contentType :: string
  rec_priority :: int
  rec_interaction :: interaction

record filter_options =
  defaultPriorityThreshold :: int
  enableLearning :: bool
  siteSpecificSettings :: bool

record filter_state =
  filter_options :: filter_options
  userPreferences :: user_preferences
  interactionHistory :: "interaction_record list"
  prefsObjects :: "prefs_ref \<Rightarrow> type_prefs"

definition maxHistoryItems :: nat where
  "maxHistoryItems = 100"

definition default_filter_options :: filter_options where
  "default_filter_options =
     \<lparr>defaultPriorityThreshold = 5, enableLearning = True, siteSpecificSettings = True\<rparr>"

text \<open>
  The constructor creates seven objects, one for each category; they are the references
  0 to 6. What \<open>default_objects\<close> says at any other reference stands for no object of
  the constructor's.
\<close>

definition default_contentTypePreferences :: "string \<rightharpoonup> prefs_ref" where
  "default_contentTypePreferences = map_of
     [(''text'', 0), (''form'', 1), (''error'', 2), (''navigation'', 3), (''media'', 4),
      (''chat'', 5), (''advertisement'', 6)]"

definition default_objects :: "prefs_ref \<Rightarrow> type_prefs" where
  "default_objects r =
     (case map_of
        [(0, \<lparr>enabled = True, minPriority = 5\<rparr>),
         (1, \<lparr>enabled = True, minPriority = 6\<rparr>),
         (2, \<lparr>enabled = True, minPriority = 3\<rparr>),
         (3, \<lparr>enabled = True, minPriority = 7\<rparr>),
         (4, \<lparr>enabled = True, minPriority = 8\<rparr>),
         (5, \<lparr>enabled = True, minPriority = 4\<rparr>),
         (6, \<lparr>enabled = False, minPriority = 10\<rparr>)] r of
        Some p \<Rightarrow> p
      | None \<Rightarrow> \<lparr>enabled = True, minPriority = 5\<rparr>)"

definition new_filter :: "filter_options \<Rightarrow> filter_state" where
  "new_filter opts =
     \<lparr>filter_options = opts,
      userPreferences =
        \<lparr>global = \<lparr>priorityThreshold = defaultPriorityThreshold opts,
                    contentTypePreferences = default_contentTypePreferences\<rparr>,
         sites = Map.empty\<rparr>,
      interactionHistory = [],
      prefsObjects = default_objects\<rparr>"

text \<open>
  \<^verbatim>\<open>this.userPreferences.global.contentTypePreferences[t]\<close>, read as a value.
\<close>

definition typePrefsOf :: "filter_state \<Rightarrow> string \<Rightarrow> type_prefs option" where
  "typePrefsOf st t =
     map_option (prefsObjects st) (contentTypePreferences (global (userPreferences st)) t)"

text \<open>
  \<^verbatim>\<open>initializePreferences\<close>: one object spread over the top level of
  \<^verbatim>\<open>userPreferences\<close>. \<^term>\<open>None\<close> is a falsy argument.
\<close>

definition initializePreferences :: "filter_state \<Rightarrow> stored_prefs option \<Rightarrow> filter_state" where
  "initializePreferences st storedPreferences =
     (case storedPreferences of
        None \<Rightarrow> st
      | Some sp \<Rightarrow>
          st\<lparr>userPreferences :=
               \<lparr>global = (case stored_global sp of
                            Some g \<Rightarrow> g | None \<Rightarrow> global (userPreferences st)),
                sites = (case stored_sites sp of
                           Some m \<Rightarrow> m | None \<Rightarrow> sites (userPreferences st))\<rparr>\<rparr>)"

subsection \<open>Classification\<close>

text \<open>
  \<^verbatim>\<open>_determineContentType\<close> reads the summary text and
  \<^verbatim>\<open>change.original.context\<close>; with no context it works on the empty object,
  whose properties are all undefined.
\<close>

definition determineContentType :: "summary_data \<Rightarrow> string" where
  "determineContentType change =
     (let s = summary change;
          ctx = change_context (original change);
          ctxIsForm = (case ctx of Some c \<Rightarrow> isForm c | None \<Rightarrow> False);
          ctxRole = (case ctx of Some c \<Rightarrow> role c | None \<Rightarrow> []);
          sectionLower = toLowerCase (case ctx of Some c \<Rightarrow> section_name (parentContext c) | None \<Rightarrow> [])
      in if str_includes (toLowerCase s) ''error'' \<or> str_includes (toLowerCase s) ''warning'' \<or>
            str_includes (toLowerCase s) ''alert'' then ''error''
         else if ctxIsForm then ''form''
         else if ctxRole = ''navigation'' \<or> ctxRole = ''link'' \<or> ctxRole = ''button'' then ''navigation''
         else if ctxRole = ''img'' \<or> ctxRole = ''video'' \<or> ctxRole = ''audio'' then ''media''
         else if str_includes s ''message'' \<or> str_includes sectionLower ''chat'' \<or>
                 str_includes sectionLower ''message'' then ''chat''
         else if str_includes (toLowerCase s) ''ad'' \<or> str_includes (toLowerCase s) ''sponsor'' \<or>
                 str_includes sectionLower ''ad'' \<or> str_includes sectionLower ''sponsor''
              then ''advertisement''
         else ''text'')"

subsection \<open>Effective preferences\<close>

text \<open>
  \<^verbatim>\<open>new URL(url).hostname\<close> belongs to the host platform: the parser is the
  parameter \<open>hostname\<close>, \<^term>\<open>None\<close> where the constructor throws.
\<close>

definition extractDomain :: "(string \<Rightarrow> string option) \<Rightarrow> string \<Rightarrow> string" where
  "extractDomain hostname url = (case hostname url of Some h \<Rightarrow> h | None \<Rightarrow> url)"

definition getApplicablePreferences ::
    "(string \<Rightarrow> string option) \<Rightarrow> filter_state \<Rightarrow> string \<Rightarrow> global_prefs" where
  "getApplicablePreferences hostname st siteUrl =
     (let g = global (userPreferences st) in
      if siteUrl = [] \<or> \<not> siteSpecificSettings (filter_options st) then g
      else case sites (userPreferences st) (extractDomain hostname siteUrl) of
             None \<Rightarrow> g
           | Some site \<Rightarrow>
               \<lparr>priorityThreshold =
                  (case opt_priorityThreshold site of Some t \<Rightarrow> t | None \<Rightarrow> priorityThreshold g),
                contentTypePreferences =
                  contentTypePreferences g ++
                  (case opt_contentTypePreferences site of Some m \<Rightarrow> m | None \<Rightarrow> Map.empty)\<rparr>)"

subsection \<open>Duplicate detection\<close>

text \<open>
  \<^verbatim>\<open>_calculateSimilarity\<close> returns a quotient of two lengths or counts. The model
  keeps the quotient exact; rounded to a double it lies on the same side of \<open>0.8\<close>, the
  only value it is compared with.
\<close>

definition calculateSimilarity :: "string \<Rightarrow> string \<Rightarrow> rat" where
  "calculateSimilarity str1 str2 =
     (if str1 = str2 then 1
      else if str1 = [] \<or> str2 = [] then 0
      else
        (let s1 = toLowerCase str1; s2 = toLowerCase str2 in
         if str_includes s1 s2 \<or> str_includes s2 s1 then
           of_nat (min (length s1) (length s2)) / of_nat (max (length s1) (length s2))
         else
           (let words1 = split_ws s1; words2 = split_ws s2;
                matchCount = length (filter (\<lambda>w. length w > 3 \<and> w \<in> set words2) words1)
            in of_nat matchCount / of_nat (max (length words1) (length words2)))))"

fun isDuplicateOf :: "interaction_record list \<Rightarrow> string \<Rightarrow> bool" where
  "isDuplicateOf [] s = False"
| "isDuplicateOf (item # items) s =
     (if rec_summary item = s then True
      else if calculateSimilarity (rec_summary item) s > 8 / 10 then True
      else isDuplicateOf items s)"

definition isDuplicate :: "filter_state \<Rightarrow> summary_data \<Rightarrow> bool" where
  "isDuplicate st change =
     (if summary change = [] then False
      else isDuplicateOf (slice_last 5 (interactionHistory st)) (summary change))"

definition shouldFilterByRules :: "filter_state \<Rightarrow> summary_data \<Rightarrow> string \<Rightarrow> bool" where
  "shouldFilterByRules st change contentType =
     (if contentType \<noteq> ''error'' \<and> summary change \<noteq> [] \<and> length (summary change) < 3 then True
      else if isDuplicate st change then True
      else False)"

subsection \<open>Filtering\<close>

text \<open>
  \<^verbatim>\<open>_filterSingleChange\<close> returns the change or \<^verbatim>\<open>null\<close> (\<^term>\<open>None\<close>). When the
  effective preferences have neither an entry for the category nor one for
  \<^verbatim>\<open>text\<close>, reading \<^verbatim>\<open>typePrefs.enabled\<close> throws. A priority of \<open>0\<close> is falsy
  and counts as \<open>5\<close>.
\<close>

definition filterSingleChange ::
    "(string \<Rightarrow> string option) \<Rightarrow> filter_state \<Rightarrow> summary_data \<Rightarrow> string
       \<Rightarrow> js_error + summary_data option" where
  "filterSingleChange hostname st change siteUrl =
     (let preferences = getApplicablePreferences hostname st siteUrl;
          contentType = determineContentType change;
          typePrefs = (case contentTypePreferences preferences contentType of
                         Some r \<Rightarrow> Some r
                       | None \<Rightarrow> contentTypePreferences preferences ''text'')
      in case typePrefs of
           None \<Rightarrow> Inl TypeError
         | Some r \<Rightarrow>
             (let tp = prefsObjects st r in
              if \<not> enabled tp then Inr None
              else
                (let p = (if priority change = 0 then 5 else priority change);
                     threshold = max (minPriority tp) (priorityThreshold preferences)
                 in if p < threshold then Inr None
                    else if shouldFilterByRules st change contentType then Inr None
                    else Inr (Some change))))"

datatype changes_arg = Single summary_data | Many "summary_data list"

datatype filtered = Null | Accepted summary_data | AcceptedMany "summary_data list"

text \<open>\<^verbatim>\<open>changes.map(...).filter(c => c !== null)\<close>; a throw inside \<^verbatim>\<open>map\<close> ends the call.\<close>

fun filterEach ::
    "(string \<Rightarrow> string option) \<Rightarrow> filter_state \<Rightarrow> summary_data list \<Rightarrow> string
       \<Rightarrow> js_error + summary_data list" where
  "filterEach hostname st [] siteUrl = Inr []"
| "filterEach hostname st (c # cs) siteUrl =
     (case filterSingleChange hostname st c siteUrl of
        Inl e \<Rightarrow> Inl e
      | Inr r \<Rightarrow>
          (case filterEach hostname st cs siteUrl of
             Inl e \<Rightarrow> Inl e
           | Inr rs \<Rightarrow> Inr (case r of None \<Rightarrow> rs | Some x \<Rightarrow> x # rs)))"

text \<open>
  The public methods return their result together with the filter state they leave
  behind.
\<close>

definition filterChanges ::
    "(string \<Rightarrow> string option) \<Rightarrow> filter_state \<Rightarrow> changes_arg \<Rightarrow> string
       \<Rightarrow> (js_error + filtered) \<times> filter_state" where
  "filterChanges hostname st changes siteUrl =
     (case changes of
        Many cs \<Rightarrow>
          (case filterEach hostname st cs siteUrl of
             Inl e \<Rightarrow> (Inl e, st)
           | Inr filteredChanges \<Rightarrow>
               (Inr (if length filteredChanges > 0 then AcceptedMany filteredChanges else Null), st))
      | Single c \<Rightarrow>
          (case filterSingleChange hostname st c siteUrl of
             Inl e \<Rightarrow> (Inl e, st)
           | Inr None \<Rightarrow> (Inr Null, st)
           | Inr (Some x) \<Rightarrow> (Inr (Accepted x), st)))"

definition getPreferences ::
    "(string \<Rightarrow> string option) \<Rightarrow> filter_state \<Rightarrow> string \<Rightarrow> global_prefs \<times> filter_state" where
  "getPreferences hostname st siteUrl = (getApplicablePreferences hostname st siteUrl, st)"

definition getPreferencesForStorage :: "filter_state \<Rightarrow> user_preferences \<times> filter_state" where
  "getPreferencesForStorage st = (userPreferences st, st)"

subsection \<open>Learning from interactions\<close>

record interaction_counts =
  viewed :: nat
  dismissed :: nat
  clicked :: nat
  total :: nat

definition no_interactions :: interaction_counts where
  "no_interactions = \<lparr>viewed = 0, dismissed = 0, clicked = 0, total = 0\<rparr>"

text \<open>\<^verbatim>\<open>counts[item.interaction]++; counts.total++\<close>\<close>

definition countInteraction :: "interaction \<Rightarrow> interaction_counts \<Rightarrow> interaction_counts" where
  "countInteraction i c =
     (case i of
        Viewed \<Rightarrow> c\<lparr>viewed := viewed c + 1, total := total c + 1\<rparr>
      | Dismissed \<Rightarrow> c\<lparr>dismissed := dismissed c + 1, total := total c + 1\<rparr>
      | Clicked \<Rightarrow> c\<lparr>clicked := clicked c + 1, total := total c + 1\<rparr>)"

text \<open>
  The object \<^verbatim>\<open>typeInteractions\<close> is an association list in insertion order, the
  order in which \<^verbatim>\<open>Object.entries\<close> walks it.
\<close>

fun countItem ::
    "(string \<times> interaction_counts) list \<Rightarrow> interaction_record
       \<Rightarrow> (string \<times> interaction_counts) list" where
  "countItem [] item = [(rec_contentType item, countInteraction (rec_interaction item) no_interactions)]"
| "countItem ((k, c) # rest) item =
     (if k = rec_contentType item then (k, countInteraction (rec_interaction item) c) # rest
      else (k, c) # countItem rest item)"

text \<open>
  \<^verbatim>\<open>currentPrefs.minPriority = Math.min(10, currentPrefs.minPriority + 1)\<close> and its
  counterpart with \<^verbatim>\<open>Math.max(1, \<dots> - 1)\<close>, as changes of the object's content.
\<close>

definition raised :: "type_prefs \<Rightarrow> type_prefs" where
  "raised p = p\<lparr>minPriority := min 10 (minPriority p + 1)\<rparr>"

definition lowered :: "type_prefs \<Rightarrow> type_prefs" where
  "lowered p = p\<lparr>minPriority := max 1 (minPriority p - 1)\<rparr>"

text \<open>
  The assignment goes to the object that the global dictionary holds for the category;
  a category without an entry is skipped.
\<close>

definition raiseMinPriority ::
    "(string \<rightharpoonup> prefs_ref) \<Rightarrow> (prefs_ref \<Rightarrow> type_prefs) \<Rightarrow> string \<Rightarrow> (prefs_ref \<Rightarrow> type_prefs)" where
  "raiseMinPriority prefs objs t =
     (case prefs t of
        None \<Rightarrow> objs
      | Some currentPrefs \<Rightarrow> objs(currentPrefs := raised (objs currentPrefs)))"

definition lowerMinPriority ::
    "(string \<rightharpoonup> prefs_ref) \<Rightarrow> (prefs_ref \<Rightarrow> type_prefs) \<Rightarrow> string \<Rightarrow> (prefs_ref \<Rightarrow> type_prefs)" where
  "lowerMinPriority prefs objs t =
     (case prefs t of
        None \<Rightarrow> objs
      | Some currentPrefs \<Rightarrow> objs(currentPrefs := lowered (objs currentPrefs)))"

text \<open>
  One round of the second loop of \<^verbatim>\<open>_updatePreferencesFromInteractions\<close>. The rates
  are exact quotients; the counts are at most 20, and there the double quotient is above
  \<open>0.7\<close> (or \<open>0.3\<close>) exactly when the exact one is.
\<close>

definition adjustForType ::
    "(string \<rightharpoonup> prefs_ref) \<Rightarrow> (prefs_ref \<Rightarrow> type_prefs) \<Rightarrow> string \<times> interaction_counts
       \<Rightarrow> (prefs_ref \<Rightarrow> type_prefs)" where
  "adjustForType prefs objs entry =
     (let t = fst entry; counts = snd entry in
      if total counts < 3 then objs
      else
        (let dismissRate = (of_nat (dismissed counts) / of_nat (total counts) :: rat);
             clickRate = (of_nat (clicked counts) / of_nat (total counts) :: rat);
             objs1 = (if dismissRate > 7 / 10 then raiseMinPriority prefs objs t else objs)
         in if clickRate > 3 / 10 then lowerMinPriority prefs objs1 t else objs1))"

definition updatePreferencesFromInteractions :: "filter_state \<Rightarrow> filter_state" where
  "updatePreferencesFromInteractions st =
     (if length (interactionHistory st) < 10 then st
      else
        (let recentInteractions = slice_last 20 (interactionHistory st);
             typeInteractions = foldl countItem [] recentInteractions;
             prefs = contentTypePreferences (global (userPreferences st))
         in st\<lparr>prefsObjects := foldl (adjustForType prefs) (prefsObjects st) typeInteractions\<rparr>))"

definition recordInteraction :: "filter_state \<Rightarrow> summary_data \<Rightarrow> interaction \<Rightarrow> filter_state" where
  "recordInteraction st change i =
     (if \<not> enableLearning (filter_options st) then st
      else
        (let pushed = interactionHistory st @
               [\<lparr>rec_summary = summary change, rec_contentType = determineContentType change,
                 rec_priority = priority change, rec_interaction = i\<rparr>];
             limited = (if length pushed > maxHistoryItems then tl pushed else pushed)
         in updatePreferencesFromInteractions (st\<lparr>interactionHistory := limited\<rparr>)))"

text \<open>
  The learning rule in the specification's words, for one category: over that category's
  interactions among the most recent 20, a dismiss-rate above 0.7 raises the minimum
  priority by 1, capped at 10, and a click-rate above 0.3 lowers it by 1, floored at 1.
  The code leaves a category with fewer than three such interactions alone.
\<close>

definition recentFor :: "filter_state \<Rightarrow> string \<Rightarrow> interaction_record list" where
  "recentFor st t =
     filter (\<lambda>r. rec_contentType r = t) (slice_last 20 (interactionHistory st))"

definition dismissRate :: "interaction_record list \<Rightarrow> rat" where
  "dismissRate xs =
     of_nat (length (filter (\<lambda>r. rec_interaction r = Dismissed) xs)) / of_nat (length xs)"

definition clickRate :: "interaction_record list \<Rightarrow> rat" where
  "clickRate xs =
     of_nat (length (filter (\<lambda>r. rec_interaction r = Clicked) xs)) / of_nat (length xs)"

definition learning_rule :: "interaction_record list \<Rightarrow> type_prefs \<Rightarrow> type_prefs" where
  "learning_rule xs p =
     (if length xs < 3 then p
      else
        (let p1 = (if dismissRate xs > 7 / 10 then raised p else p)
         in if clickRate xs > 3 / 10 then lowered p1 else p1))"

text \<open>The history as \<^verbatim>\<open>recordInteraction\<close> leaves it, before the learning pass.\<close>

definition pushedHistory ::
    "filter_state \<Rightarrow> summary_data \<Rightarrow> interaction \<Rightarrow> interaction_record list" where
  "pushedHistory st change i =
     (let pushed = interactionHistory st @
            [\<lparr>rec_summary = summary change, rec_contentType = determineContentType change,
              rec_priority = priority change, rec_interaction = i\<rparr>]
      in if length pushed > maxHistoryItems then tl pushed else pushed)"

subsection \<open>Explicit updates\<close>

text \<open>
  \<^verbatim>\<open>updatePreferences\<close>, statement by statement: the first spread has already put
  \<^verbatim>\<open>newPreferences.contentTypePreferences\<close> in place when the second one reads it.
\<close>

definition spreadOver :: "global_prefs \<Rightarrow> partial_prefs \<Rightarrow> global_prefs" where
  "spreadOver g n =
     \<lparr>priorityThreshold = (case opt_priorityThreshold n of Some t \<Rightarrow> t | None \<Rightarrow> priorityThreshold g),
      contentTypePreferences =
        (case opt_contentTypePreferences n of Some m \<Rightarrow> m | None \<Rightarrow> contentTypePreferences g)\<rparr>"

definition spreadOverSite :: "partial_prefs \<Rightarrow> partial_prefs \<Rightarrow> partial_prefs" where
  "spreadOverSite s n =
     \<lparr>opt_priorityThreshold =
        (case opt_priorityThreshold n of Some t \<Rightarrow> Some t | None \<Rightarrow> opt_priorityThreshold s),
      opt_contentTypePreferences =
        (case opt_contentTypePreferences n of Some m \<Rightarrow> Some m | None \<Rightarrow> opt_contentTypePreferences s)\<rparr>"

definition updatePreferences ::
    "(string \<Rightarrow> string option) \<Rightarrow> filter_state \<Rightarrow> partial_prefs \<Rightarrow> string \<Rightarrow> filter_state" where
  "updatePreferences hostname st newPreferences siteUrl =
     (let up = userPreferences st in
      if siteUrl = [] then
        (let g1 = spreadOver (global up) newPreferences;
             g2 = (case opt_contentTypePreferences newPreferences of
                     None \<Rightarrow> g1
                   | Some m \<Rightarrow> g1\<lparr>contentTypePreferences := contentTypePreferences g1 ++ m\<rparr>)
         in st\<lparr>userPreferences := up\<lparr>global := g2\<rparr>\<rparr>)
      else
        (let domain = extractDomain hostname siteUrl;
             s0 = (case sites up domain of
                     Some s \<Rightarrow> s
                   | None \<Rightarrow> \<lparr>opt_priorityThreshold = None,
                              opt_contentTypePreferences = Some Map.empty\<rparr>);
             s1 = spreadOverSite s0 newPreferences;
             s2 = (case opt_contentTypePreferences newPreferences of
                     None \<Rightarrow> s1
                   | Some m \<Rightarrow>
                       s1\<lparr>opt_contentTypePreferences :=
                            Some ((case opt_contentTypePreferences s1 of
                                     Some m1 \<Rightarrow> m1 | None \<Rightarrow> Map.empty) ++ m)\<rparr>)
         in st\<lparr>userPreferences := up\<lparr>sites := (sites up)(domain \<mapsto> s2)\<rparr>\<rparr>))"

subsection \<open>The public interface\<close>

datatype filter_call =
    InitializePreferences "stored_prefs option"
  | FilterChanges changes_arg string
  | RecordInteraction summary_data interaction
  | UpdatePreferences partial_prefs string
  | GetPreferences string
  | GetPreferencesForStorage

text \<open>The filter state after one call of a public method.\<close>

definition state_after ::
    "(string \<Rightarrow> string option) \<Rightarrow> filter_call \<Rightarrow> filter_state \<Rightarrow> filter_state" where
  "state_after hostname call st =
     (case call of
        InitializePreferences stored \<Rightarrow> initializePreferences st stored
      | FilterChanges changes siteUrl \<Rightarrow> snd (filterChanges hostname st changes siteUrl)
      | RecordInteraction change i \<Rightarrow> recordInteraction st change i
      | UpdatePreferences newPreferences siteUrl \<Rightarrow> updatePreferences hostname st newPreferences siteUrl
      | GetPreferences siteUrl \<Rightarrow> snd (getPreferences hostname st siteUrl)
      | GetPreferencesForStorage \<Rightarrow> snd (getPreferencesForStorage st))"

definition readsOnly :: "filter_call \<Rightarrow> bool" where
  "readsOnly call =
     (case call of
        FilterChanges changes siteUrl \<Rightarrow> True
      | GetPreferences siteUrl \<Rightarrow> True
      | GetPreferencesForStorage \<Rightarrow> True
      | _ \<Rightarrow> False)"


section \<open>Alert dispatcher (alert-system.js)\<close>

text \<open>
  The queue logic of \<^verbatim>\<open>showAlert\<close> and \<^verbatim>\<open>_processAlertQueue\<close>. Of the options
  only \<^verbatim>\<open>queueAlerts\<close> and \<^verbatim>\<open>maxQueueSize\<close> are read there. Rendering
  (\<^verbatim>\<open>_showSingleAlert\<close>) is an external effect: every call of it is appended to the
  trace \<open>shown\<close>. The drain loop is an \<^verbatim>\<open>async\<close> function; it runs up to its next
  \<^verbatim>\<open>await\<close> and is resumed when the rendering promise settles. \<open>awaiting\<close> says
  that a suspended drain loop exists.
\<close>

record alert_data =
  alert_summary :: string
  alert_priority :: int
  alert_contentType :: string

record alert_options =
  queueAlerts :: bool
  maxQueueSize :: nat

definition default_alert_options :: alert_options where
  "default_alert_options = \<lparr>queueAlerts = True, maxQueueSize = 10\<rparr>"

record dispatcher =
  alertQueue :: "alert_data list"
  isProcessing :: bool
  awaiting :: bool
  shown :: "alert_data list"

definition new_dispatcher :: dispatcher where
  "new_dispatcher = \<lparr>alertQueue = [], isProcessing = False, awaiting = False, shown = []\<rparr>"

text \<open>
  The head of the \<^verbatim>\<open>while\<close> loop: either the queue is empty and the loop ends, or
  the first alert is shifted out and rendered, and the loop suspends.
\<close>

definition drainStep :: "dispatcher \<Rightarrow> dispatcher" where
  "drainStep d =
     (case alertQueue d of
        [] \<Rightarrow> d\<lparr>isProcessing := False, awaiting := False\<rparr>
      | alert # rest \<Rightarrow> d\<lparr>alertQueue := rest, awaiting := True, shown := shown d @ [alert]\<rparr>)"

definition processAlertQueue :: "dispatcher \<Rightarrow> dispatcher" where
  "processAlertQueue d = drainStep (d\<lparr>isProcessing := True\<rparr>)"

definition showAlert :: "alert_options \<Rightarrow> dispatcher \<Rightarrow> alert_data \<Rightarrow> dispatcher" where
  "showAlert opts d alertData =
     (if queueAlerts opts then
        (let pushed = alertQueue d @ [alertData];
             limited = (if length pushed > maxQueueSize opts then tl pushed else pushed);
             d1 = d\<lparr>alertQueue := limited\<rparr>
         in if \<not> isProcessing d1 then processAlertQueue d1 else d1)
      else d\<lparr>shown := shown d @ [alertData]\<rparr>)"

datatype dispatcher_event = ShowAlert alert_data | RenderDone | RenderFailed

text \<open>
  A rendering promise that resolves resumes the loop; one that rejects ends the
  \<^verbatim>\<open>async\<close> function with \<^verbatim>\<open>isProcessing\<close> still set.
\<close>

definition dispatcher_step :: "alert_options \<Rightarrow> dispatcher \<Rightarrow> dispatcher_event \<Rightarrow> dispatcher" where
  "dispatcher_step opts d ev =
     (case ev of
        ShowAlert a \<Rightarrow> showAlert opts d a
      | RenderDone \<Rightarrow> if awaiting d then drainStep d else d
      | RenderFailed \<Rightarrow> if awaiting d then d\<lparr>awaiting := False\<rparr> else d)"

definition dispatcher_run :: "alert_options \<Rightarrow> dispatcher_event list \<Rightarrow> dispatcher" where
  "dispatcher_run opts evs = foldl (dispatcher_step opts) new_dispatcher evs"

fun submitted :: "dispatcher_event list \<Rightarrow> alert_data list" where
  "submitted [] = []"
| "submitted (ShowAlert a # evs) = a # submitted evs"
| "submitted (ev # evs) = submitted evs"


section \<open>Change observer (content-detection.js)\<close>

subsection \<open>Classification of a mutation group\<close>

text \<open>
  A \<^verbatim>\<open>MutationRecord\<close>, with the fields the Observer reads. A DOM node is an object
  with an identity; of its interface only the distinction between an element, a
  character-data node (a text node or a comment) and any other node (a document, a
  fragment) matters here.
\<close>

datatype mutation_type = ChildList | Attributes | CharacterData

datatype node_type = ElementNode | CharacterDataNode | OtherNode

record dom_node =
  node_id :: nat
  nodeType :: node_type

record mutation_record =
  record_type :: mutation_type
  target :: dom_node
  addedNodes :: "dom_node list"
  removedNodes :: "dom_node list"




definition categorizeChangeType :: "mutation_record list \<Rightarrow> change_kind" where
  "categorizeChangeType mutationGroup =
     (let hasAdditions = list_ex (\<lambda>m. record_type m = ChildList \<and> length (addedNodes m) > 0) mutationGroup;
          hasRemovals = list_ex (\<lambda>m. record_type m = ChildList \<and> length (removedNodes m) > 0) mutationGroup;
          hasAttributeChanges = list_ex (\<lambda>m. record_type m = Attributes) mutationGroup;
          hasTextChanges = list_ex (\<lambda>m. record_type m = CharacterData) mutationGroup
      in if hasAdditions \<and> \<not> hasRemovals then Addition
         else if hasRemovals \<and> \<not> hasAdditions then Removal
         else if hasAdditions \<and> hasRemovals then Replacement
         else if hasAttributeChanges then Attribute
         else if hasTextChanges then TextChange
         else Unknown)"

text \<open>
  The classification as the specification words it, by which record types a group
  holds: added-only, removed-only, both, attribute records only, character-data records
  only, and \<open>unknown\<close> for anything else.
\<close>

definition hasAdded :: "mutation_record list \<Rightarrow> bool" where
  "hasAdded g = list_ex (\<lambda>m. record_type m = ChildList \<and> addedNodes m \<noteq> []) g"

definition hasRemoved :: "mutation_record list \<Rightarrow> bool" where
  "hasRemoved g = list_ex (\<lambda>m. record_type m = ChildList \<and> removedNodes m \<noteq> []) g"

definition onlyRecordsOf :: "mutation_type \<Rightarrow> mutation_record list \<Rightarrow> bool" where
  "onlyRecordsOf t g = list_all (\<lambda>m. record_type m = t) g"

definition kind_spec :: "mutation_record list \<Rightarrow> change_kind" where
  "kind_spec g =
     (if hasAdded g \<and> \<not> hasRemoved g then Addition
      else if hasRemoved g \<and> \<not> hasAdded g then Removal
      else if hasAdded g \<and> hasRemoved g then Replacement
      else if onlyRecordsOf Attributes g then Attribute
      else if onlyRecordsOf CharacterData g then TextChange
      else Unknown)"

subsection \<open>Notifying listeners\<close>

text \<open>
  A listener is a callback with effects of its own: it takes the batch and the state of
  the world it can touch, and either returns or throws. The list of registered listeners
  is not part of that world. \<^verbatim>\<open>console.error\<close> appends to a log. A
  \<^verbatim>\<open>for \<dots> of\<close> loop ends at the first throw of its body; \<^verbatim>\<open>try/catch\<close> hands
  the thrown value to the handler.
\<close>

datatype 'e outcome = Returned | Threw 'e

type_synonym ('b, 'w, 'e) listener = "'b \<Rightarrow> 'w \<Rightarrow> 'e outcome \<times> 'w"

record ('w, 'e) observer_world =
  listener_world :: 'w
  console_errors :: "'e list"

fun forOf :: "'a list \<Rightarrow> ('a \<Rightarrow> 's \<Rightarrow> 'e outcome \<times> 's) \<Rightarrow> 's \<Rightarrow> 'e outcome \<times> 's" where
  "forOf [] body s = (Returned, s)"
| "forOf (x # xs) body s =
     (case body x s of
        (Threw e, s') \<Rightarrow> (Threw e, s')
      | (Returned, s') \<Rightarrow> forOf xs body s')"

definition tryCatch ::
    "('s \<Rightarrow> 'e outcome \<times> 's) \<Rightarrow> ('e \<Rightarrow> 's \<Rightarrow> 'e outcome \<times> 's) \<Rightarrow> 's \<Rightarrow> 'e outcome \<times> 's" where
  "tryCatch body handler s =
     (case body s of
        (Threw e, s') \<Rightarrow> handler e s'
      | (Returned, s') \<Rightarrow> (Returned, s'))"

definition callListener ::
    "('b, 'w, 'e) listener \<Rightarrow> 'b \<Rightarrow> ('w, 'e) observer_world \<Rightarrow> 'e outcome \<times> ('w, 'e) observer_world" where
  "callListener l changes w =
     (case l changes (listener_world w) of (r, u) \<Rightarrow> (r, w\<lparr>listener_world := u\<rparr>))"

definition consoleError :: "'e \<Rightarrow> ('w, 'e) observer_world \<Rightarrow> 'e outcome \<times> ('w, 'e) observer_world" where
  "consoleError e w = (Returned, w\<lparr>console_errors := console_errors w @ [e]\<rparr>)"

definition notifyChangeListeners ::
    "('b, 'w, 'e) listener list \<Rightarrow> 'b \<Rightarrow> ('w, 'e) observer_world
       \<Rightarrow> 'e outcome \<times> ('w, 'e) observer_world" where
  "notifyChangeListeners changeListeners changes w =
     forOf changeListeners (\<lambda>l. tryCatch (callListener l changes) consoleError) w"

text \<open>
  What running every listener once, in order, on the same batch does to the listeners'
  world, and which values are thrown on the way.
\<close>

fun runAll :: "('b, 'w, 'e) listener list \<Rightarrow> 'b \<Rightarrow> 'w \<Rightarrow> 'w" where
  "runAll [] b u = u"
| "runAll (l # ls) b u = runAll ls b (snd (l b u))"

fun thrownBy :: "('b, 'w, 'e) listener list \<Rightarrow> 'b \<Rightarrow> 'w \<Rightarrow> 'e list" where
  "thrownBy [] b u = []"
| "thrownBy (l # ls) b u =
     (case fst (l b u) of Threw e \<Rightarrow> [e] | Returned \<Rightarrow> []) @ thrownBy ls b (snd (l b u))"


section \<open>Notions used in the proofs\<close>

text \<open>
  The invariant of the dispatcher: the queue is within its capacity, it is empty
  whenever no drain loop is active, and the alerts rendered so far followed by the
  pending ones are, in this order, among the alerts submitted.
\<close>

definition queue_inv :: "alert_options \<Rightarrow> dispatcher \<Rightarrow> alert_data list \<Rightarrow> bool" where
  "queue_inv opts d subm =
     (length (alertQueue d) \<le> maxQueueSize opts
      \<and> (isProcessing d \<or> alertQueue d = [])
      \<and> subseq (shown d @ alertQueue d) subm)"

text \<open>What one round of the learning loop does to the object of its category.\<close>

definition adjustObject :: "interaction_counts \<Rightarrow> type_prefs \<Rightarrow> type_prefs" where
  "adjustObject counts p =
     (if total counts < 3 then p
      else
        (let p1 = (if (of_nat (dismissed counts) / of_nat (total counts) :: rat) > 7 / 10
                   then raised p else p)
         in if (of_nat (clicked counts) / of_nat (total counts) :: rat) > 3 / 10
            then lowered p1 else p1))"

text \<open>The counts of a list of interaction records, added to given counts.\<close>

definition tallyOf :: "interaction_counts \<Rightarrow> interaction_record list \<Rightarrow> interaction_counts" where
  "tallyOf c xs =
     \<lparr>viewed = viewed c + length (filter (\<lambda>r. rec_interaction r = Viewed) xs),
      dismissed = dismissed c + length (filter (\<lambda>r. rec_interaction r = Dismissed) xs),
      clicked = clicked c + length (filter (\<lambda>r. rec_interaction r = Clicked) xs),
      total = total c + length xs\<rparr>"




section \<open>Example inputs\<close>

definition heading_context :: context_info where
  "heading_context =
     \<lparr>role = ''heading'', label = [],
      parentContext = \<lparr>heading = [], section_name = []\<rparr>,
      isForm = False, isInteractive = False, isLiveRegion = False\<rparr>"

definition breaking_news :: change_data where
  "breaking_news =
     \<lparr>change_type = Addition,
      change_content =
        \<lparr>text_content = ''Breaking News '', html_content = ''<h2>Breaking News</h2>'',
         old_content = [], new_content = ''Breaking News''\<rparr>,
      change_context = Some heading_context\<rparr>"

definition plain_context :: context_info where
  "plain_context =
     \<lparr>role = [], label = [],
      parentContext = \<lparr>heading = [], section_name = []\<rparr>,
      isForm = False, isInteractive = False, isLiveRegion = False\<rparr>"

definition text_change :: "string \<Rightarrow> change_data" where
  "text_change t =
     \<lparr>change_type = TextChange,
      change_content = \<lparr>text_content = t, html_content = [], old_content = [], new_content = t\<rparr>,
      change_context = Some plain_context\<rparr>"

definition list_element :: dom_node where
  "list_element = \<lparr>node_id = 1, nodeType = ElementNode\<rparr>"

definition status_text :: dom_node where
  "status_text = \<lparr>node_id = 2, nodeType = CharacterDataNode\<rparr>"




definition attribute_record :: mutation_record where
  "attribute_record = \<lparr>record_type = Attributes, target = list_element,
                        addedNodes = [], removedNodes = []\<rparr>"

definition text_record :: mutation_record where
  "text_record = \<lparr>record_type = CharacterData, target = status_text,
                   addedNodes = [], removedNodes = []\<rparr>"



text \<open>Three listeners on a world that logs who ran; the second one throws.\<close>

definition three_listeners :: "(string, nat list, string) listener list" where
  "three_listeners =
     [\<lambda>b u. (Returned, u @ [1]), \<lambda>b u. (Threw (''failed on '' @ b), u @ [2]), \<lambda>b u. (Returned, u @ [3])]"


definition eager_summ_options :: summ_options where
  "eager_summ_options = default_summ_options\<lparr>minContentLength := 10\<rparr>"


definition no_hostname :: "string \<Rightarrow> string option" where
  "no_hostname url = None"

definition hello_summary :: summary_data where
  "hello_summary =
     \<lparr>original = text_change ''Hello world'', summary = ''Hello world'', priority = 5,
      isDirectSummary = True\<rparr>"

definition chat_summary :: summary_data where
  "chat_summary =
     \<lparr>original = text_change ''New message'', summary = ''New message'', priority = 5,
      isDirectSummary = True\<rparr>"

definition chat_item :: "interaction \<Rightarrow> interaction_record" where
  "chat_item i =
     \<lparr>rec_summary = ''New message'', rec_contentType = ''chat'', rec_priority = 5,
      rec_interaction = i\<rparr>"

text \<open>A filter with the default preferences and nineteen recorded chat interactions.\<close>

definition nineteen_chats :: filter_state where
  "nineteen_chats =
     (new_filter default_filter_options)
       \<lparr>interactionHistory := replicate 14 (chat_item Dismissed) @ replicate 5 (chat_item Viewed)\<rparr>"

text \<open>The same filter with a twentieth chat interaction, a dismissal, in its history.\<close>

definition twenty_chats :: filter_state where
  "twenty_chats =
     (new_filter default_filter_options)
       \<lparr>interactionHistory := replicate 15 (chat_item Dismissed) @ replicate 5 (chat_item Viewed)\<rparr>"

text \<open>\<^verbatim>\<open>recordInteraction\<close>, called once for each interaction of a list.\<close>

fun recordAll :: "filter_state \<Rightarrow> summary_data \<Rightarrow> interaction list \<Rightarrow> filter_state" where
  "recordAll st change [] = st"
| "recordAll st change (i # rest) = recordAll (recordInteraction st change i) change rest"

definition custom_global :: global_prefs where
  "custom_global =
     \<lparr>priorityThreshold = 7, contentTypePreferences = [''text'' \<mapsto> 7]\<rparr>"

definition custom_stored :: stored_prefs where
  "custom_stored = \<lparr>stored_global = Some custom_global, stored_sites = None\<rparr>"

definition example_sites :: "string \<rightharpoonup> partial_prefs" where
  "example_sites =
     [''example.org'' \<mapsto> \<lparr>opt_priorityThreshold = Some 8, opt_contentTypePreferences = None\<rparr>]"

definition sites_only_stored :: stored_prefs where
  "sites_only_stored = \<lparr>stored_global = None, stored_sites = Some example_sites\<rparr>"

definition numbered_alert :: "int \<Rightarrow> alert_data" where
  "numbered_alert n = \<lparr>alert_summary = ''Updated content'', alert_priority = n, alert_contentType = ''text''\<rparr>"

definition eleven_alerts :: "dispatcher_event list" where
  "eleven_alerts =
     [ShowAlert (numbered_alert 1), ShowAlert (numbered_alert 2), ShowAlert (numbered_alert 3),
      ShowAlert (numbered_alert 4), ShowAlert (numbered_alert 5), ShowAlert (numbered_alert 6),
      ShowAlert (numbered_alert 7), ShowAlert (numbered_alert 8), ShowAlert (numbered_alert 9),
      ShowAlert (numbered_alert 10), ShowAlert (numbered_alert 11)]"


text \<open>
  The filter after twenty chat interactions and a call
  \<^verbatim>\<open>updatePreferences({contentTypePreferences: {chat: p, text: p}})\<close> that hands one
  object \<open>p\<close>, at reference 7, to two categories.
\<close>

definition shared_chat_text :: filter_state where
  "shared_chat_text =
     updatePreferences no_hostname twenty_chats
       \<lparr>opt_priorityThreshold = None,
        opt_contentTypePreferences = Some [''chat'' \<mapsto> 7, ''text'' \<mapsto> 7]\<rparr> []"


section \<open>Verified properties\<close>

subsection \<open>Summarization engine\<close>

lemma if_add: "(if c then p + k else p) = p + (if c then k else (0::int))"
  by simp

lemma kind_add:
  "(case k of Addition \<Rightarrow> p + 1 | Removal \<Rightarrow> p - 1 | Group \<Rightarrow> p + 1 | _ \<Rightarrow> p) = p + adj_kind k"
  by (cases k) (simp_all add: adj_kind_def)

lemma clamp_priority_bounds: "1 \<le> clamp_priority p \<and> clamp_priority p \<le> 10"
  by (simp add: clamp_priority_def)

lemma determinePriority_refines: "determinePriority cd s = priority_spec cd s"
proof (cases "change_context cd")
  case None
  then show ?thesis
    unfolding determinePriority_def priority_spec_def Let_def kind_add if_add
      adj_liveRegion_def adj_interactive_def adj_formError_def adj_heading_def adj_keyword_def
      clamp_priority_def [symmetric]
    by (simp only: option.case add_0_right)
next
  case (Some ctx)
  then show ?thesis
    unfolding determinePriority_def priority_spec_def Let_def kind_add if_add
      adj_liveRegion_def adj_interactive_def adj_formError_def adj_heading_def adj_keyword_def
      clamp_priority_def [symmetric]
    by (simp only: option.case)
qed

lemma determinePriority_bounds: "1 \<le> determinePriority cd s \<and> determinePriority cd s \<le> 10"
  unfolding determinePriority_refines priority_spec_def by (rule clamp_priority_bounds)

lemma processSingleChange_priority:
  "\<exists>t. priority (fst (processSingleChange opts hist cd)) = determinePriority cd t"
  by (auto simp: processSingleChange_def createDirectSummary_def Let_def split: sum.splits)

text \<open>
  C2. For every change event and summary text the priority score is an integer between 1
  and 10, and it is the neutral score 5 plus the independent adjustments, clamped once
  at the end; the same bounds hold for the priority of every summary the engine returns
  for a single change.
\<close>

theorem priority_in_range:
  "1 \<le> determinePriority cd s \<and> determinePriority cd s \<le> 10
   \<and> determinePriority cd s = priority_spec cd s
   \<and> 1 \<le> priority (fst (processSingleChange opts hist cd))
   \<and> priority (fst (processSingleChange opts hist cd)) \<le> 10"
proof -
  obtain t where "priority (fst (processSingleChange opts hist cd)) = determinePriority cd t"
    using processSingleChange_priority by blast
  then show ?thesis
    using determinePriority_bounds [of cd s] determinePriority_bounds [of cd t]
      determinePriority_refines [of cd s]
    by simp
qed

text \<open>
  C4, as the code has it. A heading addition with the text "Breaking News" is summarised
  as "New section: Breaking News" when the engine's \<^verbatim>\<open>minContentLength\<close> is at most
  13, its \<^verbatim>\<open>maxSummaryLength\<close> at least 26, and the context is not a live region or
  processing is local. When \<^verbatim>\<open>minContentLength\<close> is above 13, as with the default 20,
  the engine returns the direct summary, and that is "Breaking News" itself for a
  context that is not interactive and not a labelled form field.
\<close>

theorem heading_summary:
  assumes "change_type cd = Addition" "change_context cd = Some ctx" "role ctx = ''heading''"
      and "extractRelevantText cd = ''Breaking News''"
  shows "(minContentLength opts \<le> 13 \<and> 26 \<le> maxSummaryLength opts
            \<and> (localProcessingOnly opts \<or> \<not> isLiveRegion ctx)
          \<longrightarrow> summary (fst (processSingleChange opts hist cd)) = ''New section: Breaking News'')
       \<and> (13 < minContentLength opts
          \<longrightarrow> summary (fst (processSingleChange opts hist cd)) = directSummaryText cd ''Breaking News'')
       \<and> (\<not> isInteractive ctx \<and> (\<not> isForm ctx \<or> label ctx = [])
          \<longrightarrow> directSummaryText cd ''Breaking News'' = ''Breaking News'')"
proof (intro conjI impI)
  assume h: "minContentLength opts \<le> 13 \<and> 26 \<le> maxSummaryLength opts
            \<and> (localProcessingOnly opts \<or> \<not> isLiveRegion ctx)"
  show "summary (fst (processSingleChange opts hist cd)) = ''New section: Breaking News''"
  proof (cases "localProcessingOnly opts")
    case True
    with assms h show ?thesis
      by (simp add: processSingleChange_def generateSummary_def generateLocalSummary_def Let_def)
  next
    case False
    with assms h show ?thesis
      by (simp add: processSingleChange_def generateSummary_def simulateAISummarization_def
            buildSummarizationContext_def Let_def)
  qed
next
  assume "13 < minContentLength opts"
  with assms show "summary (fst (processSingleChange opts hist cd)) = directSummaryText cd ''Breaking News''"
    by (simp add: processSingleChange_def createDirectSummary_def Let_def)
next
  assume "\<not> isInteractive ctx \<and> (\<not> isForm ctx \<or> label ctx = [])"
  with assms show "directSummaryText cd ''Breaking News'' = ''Breaking News''"
    by (auto simp: directSummaryText_def Let_def)
qed

theorem heading_summary_witness:
  "change_type breaking_news = Addition \<and> change_context breaking_news = Some heading_context
   \<and> role heading_context = ''heading'' \<and> extractRelevantText breaking_news = ''Breaking News''
   \<and> minContentLength eager_summ_options \<le> 13 \<and> 26 \<le> maxSummaryLength eager_summ_options
   \<and> \<not> isLiveRegion heading_context
   \<and> summary (fst (processSingleChange eager_summ_options [] breaking_news))
       = ''New section: Breaking News''
   \<and> 13 < minContentLength default_summ_options
   \<and> \<not> isInteractive heading_context \<and> \<not> isForm heading_context
   \<and> summary (fst (processSingleChange default_summ_options [] breaking_news)) = ''Breaking News''"
  using heading_summary [of breaking_news heading_context eager_summ_options "[]"]
    heading_summary [of breaking_news heading_context default_summ_options "[]"]
  by (simp add: breaking_news_def heading_context_def eager_summ_options_def
        default_summ_options_def extractRelevantText_def)

text \<open>
  With the default options the heading addition "Breaking News" gets the direct summary
  "Breaking News", not "New section: Breaking News".
\<close>

theorem breaking_news_direct:
  "summary (fst (processSingleChange default_summ_options [] breaking_news)) = ''Breaking News''
   \<and> summary (fst (processSingleChange default_summ_options [] breaking_news))
       \<noteq> ''New section: Breaking News''"
  by code_simp

text \<open>
  C5. The keyword test of \<^verbatim>\<open>_determinePriority\<close> knows the lower-case and the
  capitalised spelling only. The summary of the text change "ERROR: the disk is full"
  keeps the neutral priority 5, while the same text with "error" scores 7; the
  preference filter, which lower-cases the summary first, puts both in the category
  \<open>error\<close>.
\<close>

theorem uppercase_keyword_not_scored:
  "fst (processSingleChange default_summ_options [] (text_change ''ERROR: the disk is full''))
     = \<lparr>original = text_change ''ERROR: the disk is full'',
        summary = ''Updated content: ERROR: the disk is full'',
        priority = 5, isDirectSummary = False\<rparr>
   \<and> determinePriority (text_change ''ERROR: the disk is full'')
        ''Updated content: error: the disk is full'' = 7
   \<and> determineContentType
        (fst (processSingleChange default_summ_options [] (text_change ''ERROR: the disk is full'')))
       = ''error''"
  by code_simp

subsection \<open>Change observer\<close>

lemma record_type_ChildList_iff:
  "record_type m = ChildList \<longleftrightarrow> record_type m \<noteq> Attributes \<and> record_type m \<noteq> CharacterData"
  by (cases "record_type m") simp_all












text \<open>
  The common target matters: an attribute record of an element next to a character-data
  record of a text node, which no group of the Observer holds together, would be
  classified \<open>attribute\<close> by the code and \<open>unknown\<close> by the wording.
\<close>

lemma mixed_targets_differ:
  "categorizeChangeType [attribute_record, text_record] = Attribute
   \<and> kind_spec [attribute_record, text_record] = Unknown"
  by code_simp

lemma forOf_tryCatch:
  "forOf ls (\<lambda>l. tryCatch (callListener l b) consoleError) w =
     (Returned, \<lparr>listener_world = runAll ls b (listener_world w),
                 console_errors = console_errors w @ thrownBy ls b (listener_world w)\<rparr>)"
proof (induction ls arbitrary: w)
  case Nil
  show ?case by simp
next
  case (Cons l ls)
  obtain r u where lu: "l b (listener_world w) = (r, u)" by (cases "l b (listener_world w)")
  have step: "tryCatch (callListener l b) consoleError w =
      (Returned, \<lparr>listener_world = u,
                  console_errors = console_errors w @ (case r of Threw e \<Rightarrow> [e] | Returned \<Rightarrow> [])\<rparr>)"
    using lu by (cases r) (simp_all add: tryCatch_def callListener_def consoleError_def)
  show ?case
    by (simp add: step Cons.IH lu)
qed

text \<open>A loop whose body is not guarded stops at the first listener that throws.\<close>

lemma forOf_unguarded_aborts:
  "forOf three_listeners (\<lambda>l s. l ''batch'' s) [] = (Threw ''failed on batch'', [1, 2])"
  by (simp add: three_listeners_def)

text \<open>
  C9. For every list of listeners and every batch, the notification call returns
  normally; every listener has been run once, in registration order, on the same batch,
  whether or not an earlier one threw; each thrown value has been logged.
\<close>

theorem notify_runs_every_listener:
  "fst (notifyChangeListeners ls b w) = Returned
   \<and> listener_world (snd (notifyChangeListeners ls b w)) = runAll ls b (listener_world w)
   \<and> console_errors (snd (notifyChangeListeners ls b w))
       = console_errors w @ thrownBy ls b (listener_world w)"
  by (simp add: notifyChangeListeners_def forOf_tryCatch)

theorem notify_runs_every_listener_witness:
  "notifyChangeListeners three_listeners ''batch'' \<lparr>listener_world = [], console_errors = []\<rparr>
     = (Returned, \<lparr>listener_world = [1, 2, 3], console_errors = [''failed on batch'']\<rparr>)"
  using notify_runs_every_listener
          [of three_listeners "''batch''" "\<lparr>listener_world = [], console_errors = []\<rparr>"]
  by (simp add: three_listeners_def notifyChangeListeners_def tryCatch_def callListener_def
        consoleError_def)

subsection \<open>Preference filter\<close>

text \<open>
  C7, as the code has it. \<^verbatim>\<open>initializePreferences\<close> merges at the top level only: a
  falsy argument changes nothing; a top-level property (\<^verbatim>\<open>global\<close>,
  \<^verbatim>\<open>sites\<close>) that the stored object lacks keeps its current value, so that without a
  stored \<^verbatim>\<open>global\<close> a new filter keeps all seven default entries; a top-level
  property that the stored object has replaces the current one as a whole. Options and
  history are untouched.
\<close>

theorem initializePreferences_top_level_merge:
  "initializePreferences st None = st
   \<and> filter_options (initializePreferences st stored) = filter_options st
   \<and> interactionHistory (initializePreferences st stored) = interactionHistory st
   \<and> prefsObjects (initializePreferences st stored) = prefsObjects st
   \<and> (stored_global sp = None \<longrightarrow>
        global (userPreferences (initializePreferences st (Some sp))) = global (userPreferences st))
   \<and> (stored_sites sp = None \<longrightarrow>
        sites (userPreferences (initializePreferences st (Some sp))) = sites (userPreferences st))
   \<and> (stored_global sp = Some g \<longrightarrow>
        global (userPreferences (initializePreferences st (Some sp))) = g)
   \<and> (stored_sites sp = Some m \<longrightarrow>
        sites (userPreferences (initializePreferences st (Some sp))) = m)
   \<and> (stored_global sp = None \<longrightarrow>
        contentTypePreferences (global (userPreferences
          (initializePreferences (new_filter opts) (Some sp)))) = default_contentTypePreferences)"
  by (cases stored) (simp_all add: initializePreferences_def new_filter_def)

theorem initializePreferences_top_level_merge_witness:
  "stored_global sites_only_stored = None \<and> stored_sites sites_only_stored = Some example_sites
   \<and> global (userPreferences
        (initializePreferences (new_filter default_filter_options) (Some sites_only_stored)))
       = global (userPreferences (new_filter default_filter_options))
   \<and> contentTypePreferences (global (userPreferences
        (initializePreferences (new_filter default_filter_options) (Some sites_only_stored))))
       = default_contentTypePreferences
   \<and> sites (userPreferences
        (initializePreferences (new_filter default_filter_options) (Some sites_only_stored)))
       = example_sites
   \<and> stored_sites custom_stored = None \<and> stored_global custom_stored = Some custom_global
   \<and> sites (userPreferences
        (initializePreferences (new_filter default_filter_options) (Some custom_stored)))
       = sites (userPreferences (new_filter default_filter_options))
   \<and> global (userPreferences
        (initializePreferences (new_filter default_filter_options) (Some custom_stored)))
       = custom_global"
proof -
  have s: "stored_global sites_only_stored = None"
    "stored_sites sites_only_stored = Some example_sites"
    by (simp_all add: sites_only_stored_def)
  have c: "stored_sites custom_stored = None" "stored_global custom_stored = Some custom_global"
    by (simp_all add: custom_stored_def)
  show ?thesis
    using initializePreferences_top_level_merge
            [where st = "new_filter default_filter_options" and stored = None
               and sp = sites_only_stored and g = custom_global and m = example_sites
               and opts = default_filter_options]
          initializePreferences_top_level_merge
            [where st = "new_filter default_filter_options" and stored = None
               and sp = custom_stored and g = custom_global and m = example_sites
               and opts = default_filter_options]
    by (simp add: s c new_filter_def)
qed

text \<open>
  A stored object whose \<^verbatim>\<open>global\<close> carries an entry for \<open>text\<close> only: after
  initialization the default entry for \<open>chat\<close> is gone, although the stored object
  has none for it.
\<close>

theorem stored_global_replaces_defaults:
  "contentTypePreferences (global (userPreferences
      (initializePreferences (new_filter default_filter_options) (Some custom_stored)))) ''chat''
     = None
   \<and> typePrefsOf (new_filter default_filter_options) ''chat''
       = Some \<lparr>enabled = True, minPriority = 4\<rparr>
   \<and> typePrefsOf (initializePreferences (new_filter default_filter_options) (Some custom_stored))
        ''chat'' = None
   \<and> stored_global custom_stored = Some custom_global
   \<and> contentTypePreferences custom_global ''chat'' = None"
  by (simp add: initializePreferences_def new_filter_def custom_stored_def custom_global_def
        default_contentTypePreferences_def default_objects_def typePrefsOf_def)

lemma filterChanges_state: "snd (filterChanges hostname st changes siteUrl) = st"
  by (simp add: filterChanges_def split: changes_arg.splits sum.splits option.splits)

text \<open>
  C10, as the code has it. \<^verbatim>\<open>filterChanges\<close> returns its result and leaves the
  filter state as it found it, preferences and history included, for a single summary
  and for a list; so do \<^verbatim>\<open>getPreferences\<close> and \<^verbatim>\<open>getPreferencesForStorage\<close>.
  A public call that changes the state is one of \<^verbatim>\<open>initializePreferences\<close>,
  \<^verbatim>\<open>recordInteraction\<close> and \<^verbatim>\<open>updatePreferences\<close>.
\<close>

theorem filterChanges_frame:
  "snd (filterChanges hostname st changes siteUrl) = st
   \<and> userPreferences (snd (filterChanges hostname st changes siteUrl)) = userPreferences st
   \<and> interactionHistory (snd (filterChanges hostname st changes siteUrl)) = interactionHistory st
   \<and> prefsObjects (snd (filterChanges hostname st changes siteUrl)) = prefsObjects st
   \<and> (readsOnly call \<longrightarrow> state_after hostname call st = st)
   \<and> (state_after hostname call st \<noteq> st \<longrightarrow>
        (\<exists>stored. call = InitializePreferences stored)
        \<or> (\<exists>change i. call = RecordInteraction change i)
        \<or> (\<exists>newPreferences url. call = UpdatePreferences newPreferences url))"
  by (cases call)
     (simp_all add: filterChanges_state readsOnly_def state_after_def getPreferences_def
        getPreferencesForStorage_def)

theorem filterChanges_frame_witness:
  "readsOnly (FilterChanges (Many [hello_summary, chat_summary]) ''https://example.org/'')
   \<and> state_after no_hostname (FilterChanges (Many [hello_summary, chat_summary]) ''https://example.org/'')
        (new_filter default_filter_options) = new_filter default_filter_options
   \<and> state_after no_hostname (RecordInteraction hello_summary Viewed)
        (new_filter default_filter_options) \<noteq> new_filter default_filter_options"
proof -
  have "interactionHistory (state_after no_hostname (RecordInteraction hello_summary Viewed)
          (new_filter default_filter_options)) \<noteq> []"
    by (simp add: state_after_def recordInteraction_def new_filter_def default_filter_options_def
          updatePreferencesFromInteractions_def Let_def maxHistoryItems_def)
  moreover have "interactionHistory (new_filter default_filter_options) = []"
    by (simp add: new_filter_def)
  ultimately have "state_after no_hostname (RecordInteraction hello_summary Viewed)
      (new_filter default_filter_options) \<noteq> new_filter default_filter_options"
    by metis
  then show ?thesis
    using filterChanges_frame
            [of no_hostname "new_filter default_filter_options" "Many [hello_summary, chat_summary]"
                "''https://example.org/''"
                "FilterChanges (Many [hello_summary, chat_summary]) ''https://example.org/''"]
    by (simp add: readsOnly_def)
qed

text \<open>
  \<^verbatim>\<open>initializePreferences\<close> changes the preferences of the filter: the threshold of a
  new filter is 5, and 7 after loading a stored object that says so.
\<close>

theorem initializePreferences_mutates:
  "priorityThreshold (global (userPreferences
      (state_after no_hostname (InitializePreferences (Some custom_stored))
         (new_filter default_filter_options)))) = 7
   \<and> priorityThreshold (global (userPreferences (new_filter default_filter_options))) = 5"
  by (simp add: state_after_def initializePreferences_def new_filter_def custom_stored_def
        custom_global_def default_filter_options_def)









lemma tallyOf_Nil: "tallyOf c [] = c"
  by (simp add: tallyOf_def)

lemma tallyOf_Cons:
  "tallyOf (countInteraction (rec_interaction x) c) xs = tallyOf c (x # xs)"
  by (cases "rec_interaction x") (simp_all add: tallyOf_def countInteraction_def)

lemma tallyOf_single: "tallyOf c [x] = countInteraction (rec_interaction x) c"
  using tallyOf_Cons [of x c "[]"] by (simp add: tallyOf_Nil)

lemma countItem_map_of:
  "map_of (countItem acc x) =
     (map_of acc)(rec_contentType x \<mapsto>
        countInteraction (rec_interaction x)
          (case map_of acc (rec_contentType x) of Some c \<Rightarrow> c | None \<Rightarrow> no_interactions))"
  by (induction acc x rule: countItem.induct) (auto simp: fun_eq_iff)

lemma countItem_keys:
  "map fst (countItem acc x) =
     (if rec_contentType x \<in> set (map fst acc) then map fst acc
      else map fst acc @ [rec_contentType x])"
  by (induction acc x rule: countItem.induct) auto

lemma foldl_countItem_distinct:
  "distinct (map fst acc) \<Longrightarrow> distinct (map fst (foldl countItem acc xs))"
proof (induction xs arbitrary: acc)
  case Nil
  then show ?case by simp
next
  case (Cons x xs)
  have "distinct (map fst (countItem acc x))"
    using Cons.prems by (simp add: countItem_keys)
  then show ?case using Cons.IH by simp
qed

lemma foldl_countItem_map_of:
  "map_of (foldl countItem acc xs) t =
     (if filter (\<lambda>r. rec_contentType r = t) xs = [] then map_of acc t
      else Some (tallyOf (case map_of acc t of Some c \<Rightarrow> c | None \<Rightarrow> no_interactions)
                   (filter (\<lambda>r. rec_contentType r = t) xs)))"
proof (induction xs arbitrary: acc)
  case Nil
  show ?case by simp
next
  case (Cons x xs)
  show ?case
  proof (cases "rec_contentType x = t")
    case True
    then show ?thesis
      by (simp add: Cons.IH [of "countItem acc x"] countItem_map_of tallyOf_Cons tallyOf_single)
  next
    case False
    then show ?thesis
      by (simp add: Cons.IH [of "countItem acc x"] countItem_map_of)
  qed
qed

lemma adjustForType_pointwise:
  "adjustForType prefs objs (t, c) =
     (case prefs t of None \<Rightarrow> objs | Some r \<Rightarrow> objs(r := adjustObject c (objs r)))"
  by (cases "prefs t")
     (simp_all add: adjustForType_def adjustObject_def raiseMinPriority_def lowerMinPriority_def
        Let_def)

lemma foldl_adjust_shared_none:
  assumes "r \<notin> ran prefs"
  shows "foldl (adjustForType prefs) objs es r = objs r"
  using assms
proof (induction es arbitrary: objs)
  case Nil
  show ?case by simp
next
  case (Cons e es)
  obtain t c where e: "e = (t, c)" by (cases e)
  have "adjustForType prefs objs (t, c) r = objs r"
    using Cons.prems by (auto simp: adjustForType_pointwise ran_def split: option.splits)
  then show ?case using Cons.IH [OF Cons.prems] e by simp
qed

lemma foldl_adjust_category:
  assumes "distinct (map fst es)" "inj_on prefs (dom prefs)" "prefs t = Some r"
  shows "foldl (adjustForType prefs) objs es r =
           (case map_of es t of Some c \<Rightarrow> adjustObject c (objs r) | None \<Rightarrow> objs r)"
  using assms(1)
proof (induction es arbitrary: objs)
  case Nil
  show ?case by simp
next
  case (Cons e es)
  obtain k c where e: "e = (k, c)" by (cases e)
  have d: "distinct (map fst es)" and k: "k \<notin> fst ` set es" using Cons.prems e by auto
  let ?objs1 = "adjustForType prefs objs (k, c)"
  have ih: "foldl (adjustForType prefs) ?objs1 es r =
      (case map_of es t of Some c' \<Rightarrow> adjustObject c' (?objs1 r) | None \<Rightarrow> ?objs1 r)"
    by (rule Cons.IH [OF d])
  have f: "foldl (adjustForType prefs) objs (e # es) r = foldl (adjustForType prefs) ?objs1 es r"
    using e by simp
  show ?case
  proof (cases "k = t")
    case True
    then have n: "map_of es t = None" using k by (simp add: map_of_eq_None_iff)
    have "?objs1 r = adjustObject c (objs r)"
      using True assms(3) by (simp add: adjustForType_pointwise)
    then show ?thesis
      unfolding f ih using n True e by (simp split: option.split)
  next
    case False
    have "prefs k \<noteq> Some r"
    proof
      assume "prefs k = Some r"
      then have "k = t" using assms(2,3) by (auto simp: inj_on_def dom_def)
      with False show False by simp
    qed
    then have "?objs1 r = objs r"
      by (auto simp: adjustForType_pointwise split: option.splits)
    then show ?thesis
      unfolding f ih using False e by (simp split: option.split)
  qed
qed

lemma adjustObject_tally:
  "adjustObject (tallyOf no_interactions xs) p = learning_rule xs p"
  by (simp add: adjustObject_def learning_rule_def tallyOf_def no_interactions_def
        dismissRate_def clickRate_def Let_def)

lemma learning_pass_category:
  assumes "10 \<le> length (interactionHistory st)"
      and "inj_on (contentTypePreferences (global (userPreferences st)))
             (dom (contentTypePreferences (global (userPreferences st))))"
  shows "typePrefsOf (updatePreferencesFromInteractions st) t
           = map_option (learning_rule (recentFor st t)) (typePrefsOf st t)"
proof (cases "contentTypePreferences (global (userPreferences st)) t")
  case None
  then show ?thesis
    by (simp add: typePrefsOf_def updatePreferencesFromInteractions_def Let_def)
next
  case (Some r)
  let ?recent = "slice_last 20 (interactionHistory st)"
  let ?ti = "foldl countItem [] ?recent"
  have d: "distinct (map fst ?ti)" by (rule foldl_countItem_distinct) simp
  have m: "map_of ?ti t =
      (if recentFor st t = [] then None else Some (tallyOf no_interactions (recentFor st t)))"
    using foldl_countItem_map_of [of "[]" ?recent t] by (simp add: recentFor_def)
  have "foldl (adjustForType (contentTypePreferences (global (userPreferences st))))
          (prefsObjects st) ?ti r
      = (case map_of ?ti t of Some c \<Rightarrow> adjustObject c (prefsObjects st r)
         | None \<Rightarrow> prefsObjects st r)"
    by (rule foldl_adjust_category [OF d assms(2) Some])
  also have "\<dots> = learning_rule (recentFor st t) (prefsObjects st r)"
    by (simp add: m adjustObject_tally learning_rule_def)
  finally show ?thesis
    using assms(1) Some
    by (simp add: typePrefsOf_def updatePreferencesFromInteractions_def Let_def)
qed

lemma recordInteraction_runs_pass:
  "recordInteraction st c i =
     (if enableLearning (filter_options st)
      then updatePreferencesFromInteractions (st\<lparr>interactionHistory := pushedHistory st c i\<rparr>)
      else st)"
  by (simp add: recordInteraction_def pushedHistory_def Let_def)

lemma interactions_partition:
  "length (filter (\<lambda>r. rec_interaction r = Viewed) xs)
   + length (filter (\<lambda>r. rec_interaction r = Dismissed) xs)
   + length (filter (\<lambda>r. rec_interaction r = Clicked) xs) = length xs"
proof (induction xs)
  case Nil
  show ?case by simp
next
  case (Cons x xs)
  then show ?case by (cases "rec_interaction x") simp_all
qed

lemma learning_rule_mostly_dismissed:
  assumes "length xs = 20" "length (filter (\<lambda>r. rec_interaction r = Dismissed) xs) = 15"
  shows "learning_rule xs p = raised p"
proof -
  have "length (filter (\<lambda>r. rec_interaction r = Clicked) xs) \<le> 5"
    using interactions_partition [of xs] assms by simp
  then have "(of_nat (length (filter (\<lambda>r. rec_interaction r = Clicked) xs)) :: rat) \<le> 5"
    by (metis of_nat_le_iff of_nat_numeral)
  then have "\<not> clickRate xs > 3 / 10" using assms(1) by (simp add: clickRate_def)
  then show ?thesis using assms by (simp add: learning_rule_def dismissRate_def)
qed

lemma one_category_pass:
  assumes "10 \<le> length (interactionHistory st)"
      and "\<forall>r \<in> set (interactionHistory st). rec_contentType r = t"
  shows "prefsObjects (updatePreferencesFromInteractions st) =
           (case contentTypePreferences (global (userPreferences st)) t of
              None \<Rightarrow> prefsObjects st
            | Some r \<Rightarrow> (prefsObjects st)
                 (r := learning_rule (slice_last 20 (interactionHistory st)) (prefsObjects st r)))"
proof -
  let ?recent = "slice_last 20 (interactionHistory st)"
  have ne: "?recent \<noteq> []" using assms(1) by (auto simp: slice_last_def)
  have all: "\<forall>r \<in> set ?recent. rec_contentType r = t"
    using assms(2) by (auto simp: slice_last_def dest: in_set_dropD)
  then have fl: "filter (\<lambda>r. rec_contentType r = t) ?recent = ?recent" by simp
  have keys: "set (map fst (foldl countItem [] ?recent)) \<subseteq> {t}"
  proof
    fix k assume "k \<in> set (map fst (foldl countItem [] ?recent))"
    then have "map_of (foldl countItem [] ?recent) k \<noteq> None"
      by (simp add: map_of_eq_None_iff)
    then have "filter (\<lambda>r. rec_contentType r = k) ?recent \<noteq> []"
      by (simp add: foldl_countItem_map_of split: if_splits)
    then obtain r where "r \<in> set ?recent" "rec_contentType r = k"
      by (auto simp: filter_empty_conv)
    then show "k \<in> {t}" using all by auto
  qed
  have d: "distinct (map fst (foldl countItem [] ?recent))"
    by (rule foldl_countItem_distinct) simp
  have m: "map_of (foldl countItem [] ?recent) t = Some (tallyOf no_interactions ?recent)"
    using ne by (simp add: foldl_countItem_map_of fl)
  obtain es where es: "foldl countItem [] ?recent = es" by simp
  have "es = [(t, tallyOf no_interactions ?recent)]"
  proof (cases es)
    case Nil
    then show ?thesis using m es by simp
  next
    case (Cons e es')
    have "fst e = t" using keys es Cons by auto
    moreover have "es' = []"
    proof (cases es')
      case Nil
      then show ?thesis .
    next
      case (Cons e' es'')
      then have "fst e' = t" using keys es \<open>es = e # es'\<close> by auto
      then show ?thesis using d es \<open>es = e # es'\<close> Cons \<open>fst e = t\<close> by auto
    qed
    ultimately show ?thesis using m es Cons by (cases e) auto
  qed
  then show ?thesis
    using assms(1) es
    by (simp add: updatePreferencesFromInteractions_def Let_def adjustForType_pointwise
          adjustObject_tally split: option.split)
qed

text \<open>
  C3, as the code has it. With learning enabled every \<^verbatim>\<open>recordInteraction\<close> ends with a
  learning pass over the history it has just extended. The pass does nothing while the
  history has fewer than 10 entries, and it never changes the dictionaries, the history
  or the options: it writes to the preference objects only. From 10 entries on, and
  when the categories of the global preferences hold distinct objects, the preferences
  of every category become \<open>learning_rule\<close> of the entries of that category among the
  most recent 20: unchanged with fewer than 3 such entries; otherwise raised by 1,
  capped at 10, when more than 0.7 of them are dismissals, and then lowered by 1,
  floored at 1, when more than 0.3 of them are clicks. An object that no category of
  the global preferences refers to stays as it is. In particular, when the 20th
  interaction is recorded, all 20 are of category \<open>chat\<close> and 15 of them are dismissals,
  the pass of that call raises \<^verbatim>\<open>chat.minPriority\<close> by exactly 1, capped at 10, over its
  value before the call, and changes no object but the one of \<open>chat\<close>.
\<close>

theorem learning_pass_rules:
  "(length (interactionHistory st) < 10 \<longrightarrow> updatePreferencesFromInteractions st = st)
   \<and> userPreferences (updatePreferencesFromInteractions st) = userPreferences st
   \<and> interactionHistory (updatePreferencesFromInteractions st) = interactionHistory st
   \<and> filter_options (updatePreferencesFromInteractions st) = filter_options st
   \<and> (10 \<le> length (interactionHistory st)
        \<and> inj_on (contentTypePreferences (global (userPreferences st)))
             (dom (contentTypePreferences (global (userPreferences st))))
      \<longrightarrow> typePrefsOf (updatePreferencesFromInteractions st) t
            = map_option (learning_rule (recentFor st t)) (typePrefsOf st t))
   \<and> (r \<notin> ran (contentTypePreferences (global (userPreferences st)))
      \<longrightarrow> prefsObjects (updatePreferencesFromInteractions st) r = prefsObjects st r)
   \<and> (enableLearning (filter_options st)
      \<longrightarrow> recordInteraction st c i
            = updatePreferencesFromInteractions (st\<lparr>interactionHistory := pushedHistory st c i\<rparr>))
   \<and> (enableLearning (filter_options st) \<and> length (interactionHistory st) = 19
        \<and> (\<forall>x \<in> set (interactionHistory st). rec_contentType x = ''chat'')
        \<and> determineContentType c = ''chat''
        \<and> length (filter (\<lambda>x. rec_interaction x = Dismissed) (interactionHistory st))
             + (if i = Dismissed then 1 else 0) = 15
      \<longrightarrow> typePrefsOf (recordInteraction st c i) ''chat''
            = map_option raised (typePrefsOf st ''chat'')
          \<and> (contentTypePreferences (global (userPreferences st)) ''chat'' \<noteq> Some r
              \<longrightarrow> prefsObjects (recordInteraction st c i) r = prefsObjects st r))"
proof (intro conjI impI)
  assume "length (interactionHistory st) < 10"
  then show "updatePreferencesFromInteractions st = st"
    by (simp add: updatePreferencesFromInteractions_def)
next
  show "userPreferences (updatePreferencesFromInteractions st) = userPreferences st"
    by (simp add: updatePreferencesFromInteractions_def Let_def)
next
  show "interactionHistory (updatePreferencesFromInteractions st) = interactionHistory st"
    by (simp add: updatePreferencesFromInteractions_def Let_def)
next
  show "filter_options (updatePreferencesFromInteractions st) = filter_options st"
    by (simp add: updatePreferencesFromInteractions_def Let_def)
next
  assume "10 \<le> length (interactionHistory st)
        \<and> inj_on (contentTypePreferences (global (userPreferences st)))
             (dom (contentTypePreferences (global (userPreferences st))))"
  then show "typePrefsOf (updatePreferencesFromInteractions st) t
            = map_option (learning_rule (recentFor st t)) (typePrefsOf st t)"
    using learning_pass_category by blast
next
  assume "r \<notin> ran (contentTypePreferences (global (userPreferences st)))"
  then show "prefsObjects (updatePreferencesFromInteractions st) r = prefsObjects st r"
    by (simp add: updatePreferencesFromInteractions_def Let_def foldl_adjust_shared_none)
next
  assume "enableLearning (filter_options st)"
  then show "recordInteraction st c i
            = updatePreferencesFromInteractions (st\<lparr>interactionHistory := pushedHistory st c i\<rparr>)"
    by (simp add: recordInteraction_runs_pass)
next
  assume h: "enableLearning (filter_options st) \<and> length (interactionHistory st) = 19
        \<and> (\<forall>x \<in> set (interactionHistory st). rec_contentType x = ''chat'')
        \<and> determineContentType c = ''chat''
        \<and> length (filter (\<lambda>x. rec_interaction x = Dismissed) (interactionHistory st))
             + (if i = Dismissed then 1 else 0) = 15"
  let ?item = "\<lparr>rec_summary = summary c, rec_contentType = determineContentType c,
                  rec_priority = priority c, rec_interaction = i\<rparr>"
  let ?h = "interactionHistory st @ [?item]"
  let ?st' = "st\<lparr>interactionHistory := ?h\<rparr>"
  have p: "pushedHistory st c i = ?h"
    using h by (simp add: pushedHistory_def Let_def maxHistoryItems_def)
  have rp: "recordInteraction st c i = updatePreferencesFromInteractions ?st'"
    using h by (simp add: recordInteraction_runs_pass p)
  have len: "length ?h = 20" using h by simp
  have s: "slice_last 20 ?h = ?h" using len by (simp add: slice_last_def)
  have dis: "length (filter (\<lambda>x. rec_interaction x = Dismissed) ?h) = 15"
    using h by (simp split: if_splits)
  have lr: "\<And>q. learning_rule ?h q = raised q"
    by (rule learning_rule_mostly_dismissed [OF len dis])
  have a1: "10 \<le> length (interactionHistory ?st')" using len by simp
  have a2: "\<forall>x \<in> set (interactionHistory ?st'). rec_contentType x = ''chat''"
    using h by simp
  have objs: "prefsObjects (recordInteraction st c i) =
      (case contentTypePreferences (global (userPreferences st)) ''chat'' of
         None \<Rightarrow> prefsObjects st
       | Some r \<Rightarrow> (prefsObjects st)(r := raised (prefsObjects st r)))"
  proof (cases "contentTypePreferences (global (userPreferences st)) ''chat''")
    case None
    then show ?thesis
      unfolding rp using one_category_pass [OF a1 a2] by simp
  next
    case (Some r0)
    then show ?thesis
      unfolding rp using one_category_pass [OF a1 a2] by (simp add: s lr)
  qed
  have up: "userPreferences (recordInteraction st c i) = userPreferences st"
    unfolding rp by (simp add: updatePreferencesFromInteractions_def Let_def)
  show "typePrefsOf (recordInteraction st c i) ''chat'' = map_option raised (typePrefsOf st ''chat'')"
    by (simp add: typePrefsOf_def up objs split: option.split)
  show "prefsObjects (recordInteraction st c i) r = prefsObjects st r"
    if "contentTypePreferences (global (userPreferences st)) ''chat'' \<noteq> Some r"
    using that by (simp add: objs split: option.split)
qed

lemma default_prefs_distinct:
  "inj_on default_contentTypePreferences (dom default_contentTypePreferences)"
  unfolding default_contentTypePreferences_def dom_map_of_conv_image_fst
  by (simp add: inj_on_def)

lemma default_prefs_ran:
  "ran default_contentTypePreferences = {0, 1, 2, 3, 4, 5, 6}"
  unfolding default_contentTypePreferences_def
  by (subst ran_distinct) auto

theorem learning_pass_rules_witness:
  "length (interactionHistory (new_filter default_filter_options)) < 10
   \<and> updatePreferencesFromInteractions (new_filter default_filter_options)
       = new_filter default_filter_options
   \<and> 10 \<le> length (interactionHistory twenty_chats)
   \<and> inj_on (contentTypePreferences (global (userPreferences twenty_chats)))
        (dom (contentTypePreferences (global (userPreferences twenty_chats))))
   \<and> typePrefsOf twenty_chats ''chat'' = Some \<lparr>enabled = True, minPriority = 4\<rparr>
   \<and> typePrefsOf (updatePreferencesFromInteractions twenty_chats) ''chat''
       = Some \<lparr>enabled = True, minPriority = 5\<rparr>
   \<and> 7 \<notin> ran (contentTypePreferences (global (userPreferences twenty_chats)))
   \<and> prefsObjects (updatePreferencesFromInteractions twenty_chats) 7 = prefsObjects twenty_chats 7
   \<and> enableLearning (filter_options nineteen_chats)
   \<and> length (interactionHistory nineteen_chats) = 19
   \<and> determineContentType chat_summary = ''chat''
   \<and> length (filter (\<lambda>x. rec_interaction x = Dismissed) (interactionHistory nineteen_chats)) = 14
   \<and> typePrefsOf (recordInteraction nineteen_chats chat_summary Dismissed) ''chat''
       = Some \<lparr>enabled = True, minPriority = 5\<rparr>
   \<and> contentTypePreferences (global (userPreferences nineteen_chats)) ''chat'' \<noteq> Some 0
   \<and> prefsObjects (recordInteraction nineteen_chats chat_summary Dismissed) 0
       = prefsObjects nineteen_chats 0"
proof -
  have n: "length (interactionHistory (new_filter default_filter_options)) < 10"
    by (simp add: new_filter_def)
  have t1: "10 \<le> length (interactionHistory twenty_chats)"
    by (simp add: twenty_chats_def)
  have t2: "inj_on (contentTypePreferences (global (userPreferences twenty_chats)))
        (dom (contentTypePreferences (global (userPreferences twenty_chats))))"
    by (simp add: twenty_chats_def new_filter_def default_prefs_distinct)
  have t3: "typePrefsOf twenty_chats ''chat'' = Some \<lparr>enabled = True, minPriority = 4\<rparr>"
    by code_simp
  have t4: "learning_rule (recentFor twenty_chats ''chat'') \<lparr>enabled = True, minPriority = 4\<rparr>
      = \<lparr>enabled = True, minPriority = 5\<rparr>"
    by code_simp
  have t5: "7 \<notin> ran (contentTypePreferences (global (userPreferences twenty_chats)))"
    by (simp add: twenty_chats_def new_filter_def default_prefs_ran)
  have c1: "enableLearning (filter_options nineteen_chats)"
    "length (interactionHistory nineteen_chats) = 19"
    "determineContentType chat_summary = ''chat''"
    "length (filter (\<lambda>x. rec_interaction x = Dismissed) (interactionHistory nineteen_chats)) = 14"
    "typePrefsOf nineteen_chats ''chat'' = Some \<lparr>enabled = True, minPriority = 4\<rparr>"
    "raised \<lparr>enabled = True, minPriority = 4\<rparr> = \<lparr>enabled = True, minPriority = 5\<rparr>"
    "contentTypePreferences (global (userPreferences nineteen_chats)) ''chat'' \<noteq> Some 0"
    by code_simp+
  have c2: "\<forall>x \<in> set (interactionHistory nineteen_chats). rec_contentType x = ''chat''"
    by (auto simp: nineteen_chats_def chat_item_def)
  note new = learning_pass_rules
      [where st = "new_filter default_filter_options" and t = "''chat''" and r = 7
         and c = chat_summary and i = Dismissed]
  note twenty = learning_pass_rules
      [where st = twenty_chats and t = "''chat''" and r = 7 and c = chat_summary and i = Dismissed]
  note nineteen = learning_pass_rules
      [where st = nineteen_chats and t = "''chat''" and r = 0 and c = chat_summary
         and i = Dismissed]
  have w1: "updatePreferencesFromInteractions (new_filter default_filter_options)
      = new_filter default_filter_options"
    using new n by blast
  have "typePrefsOf (updatePreferencesFromInteractions twenty_chats) ''chat''
      = map_option (learning_rule (recentFor twenty_chats ''chat'')) (typePrefsOf twenty_chats ''chat'')"
    using twenty t1 t2 by blast
  then have w2: "typePrefsOf (updatePreferencesFromInteractions twenty_chats) ''chat''
      = Some \<lparr>enabled = True, minPriority = 5\<rparr>"
    by (simp add: t3 t4)
  have w3: "prefsObjects (updatePreferencesFromInteractions twenty_chats) 7
      = prefsObjects twenty_chats 7"
    using twenty t5 by blast
  have i0: "(if Dismissed = Dismissed then 1 else 0) = (1::nat)" by simp
  have sc: "length (filter (\<lambda>x. rec_interaction x = Dismissed) (interactionHistory nineteen_chats))
      + (if Dismissed = Dismissed then 1 else 0) = 15"
    using c1(4) by simp
  have "typePrefsOf (recordInteraction nineteen_chats chat_summary Dismissed) ''chat''
          = map_option raised (typePrefsOf nineteen_chats ''chat'')
      \<and> (contentTypePreferences (global (userPreferences nineteen_chats)) ''chat'' \<noteq> Some 0
           \<longrightarrow> prefsObjects (recordInteraction nineteen_chats chat_summary Dismissed) 0
                = prefsObjects nineteen_chats 0)"
    using nineteen c1(1,2,3) c2 sc by blast
  then have w4: "typePrefsOf (recordInteraction nineteen_chats chat_summary Dismissed) ''chat''
      = Some \<lparr>enabled = True, minPriority = 5\<rparr>"
    and w5: "prefsObjects (recordInteraction nineteen_chats chat_summary Dismissed) 0
      = prefsObjects nineteen_chats 0"
    using c1(5,6,7) by simp_all
  show ?thesis
    using n w1 t1 t2 t3 w2 t5 w3 c1(1,2,3,4,7) w4 w5 by simp
qed

text \<open>
  Twenty chat interactions recorded one after the other on a new filter, the fifteen
  dismissals first: the passes of the tenth to the twentieth call each raise the
  threshold, which ends at the cap 10, six above the default 4, not one.
\<close>

theorem fifteen_dismissals_first_reach_cap:
  "typePrefsOf
     (recordAll (new_filter default_filter_options) chat_summary
        (replicate 15 Dismissed @ replicate 5 Viewed)) ''chat''
     = Some \<lparr>enabled = True, minPriority = 10\<rparr>
   \<and> typePrefsOf (new_filter default_filter_options) ''chat''
       = Some \<lparr>enabled = True, minPriority = 4\<rparr>"
  by code_simp

text \<open>
  When two categories hold the same object, a pass that adjusts one adjusts the other:
  with \<open>chat\<close> and \<open>text\<close> sharing an object, the dismissed chat alerts raise the
  minimum priority of \<open>text\<close> too, although the history has no entry of that category.
\<close>

lemma shared_object_adjusted_together:
  "typePrefsOf shared_chat_text ''text'' = Some \<lparr>enabled = True, minPriority = 5\<rparr>
   \<and> recentFor shared_chat_text ''text'' = []
   \<and> typePrefsOf (updatePreferencesFromInteractions shared_chat_text) ''text''
       = Some \<lparr>enabled = True, minPriority = 6\<rparr>
   \<and> typePrefsOf (updatePreferencesFromInteractions shared_chat_text) ''chat''
       = Some \<lparr>enabled = True, minPriority = 6\<rparr>"
  by code_simp

subsection \<open>Alert dispatcher\<close>

lemma subseq_tl: "subseq (tl xs) xs"
proof (cases xs)
  case Nil
  then show ?thesis by simp
next
  case (Cons a list)
  then show ?thesis using subseq_drop_many [of list list "[a]"] by simp
qed

lemma subseq_drop_head:
  assumes "subseq (s @ q) subm"
  shows "subseq (s @ tl (q @ [a])) (subm @ [a])"
proof -
  have "subseq (s @ tl (q @ [a])) (s @ (q @ [a]))"
    using subseq_tl [of "q @ [a]"] by (simp only: subseq_append')
  moreover have "subseq ((s @ q) @ [a]) (subm @ [a])"
    using assms by (simp only: subseq_append)
  ultimately show ?thesis
    using subseq_order.trans by fastforce
qed

lemma subseq_snoc:
  assumes "subseq (s @ q) subm"
  shows "subseq (s @ q @ [a]) (subm @ [a])"
  using assms subseq_append [of "s @ q" "[a]" subm] by simp

lemma submitted_snoc:
  "submitted (evs @ [ev]) = submitted evs @ (case ev of ShowAlert a \<Rightarrow> [a] | _ \<Rightarrow> [])"
  by (induction evs rule: submitted.induct) (simp_all split: dispatcher_event.splits)

lemma showAlert_inv:
  assumes q: "queueAlerts opts" and inv: "queue_inv opts d subm"
  shows "queue_inv opts (showAlert opts d a) (subm @ [a])"
proof (cases "isProcessing d")
  case True
  show ?thesis
  proof (cases "length (alertQueue d) < maxQueueSize opts")
    case less: True
    then have "showAlert opts d a = d\<lparr>alertQueue := alertQueue d @ [a]\<rparr>"
      using q True by (simp add: showAlert_def Let_def)
    then show ?thesis using inv less True subseq_snoc [of "shown d" "alertQueue d" subm a]
      by (simp add: queue_inv_def)
  next
    case False
    then have "showAlert opts d a = d\<lparr>alertQueue := tl (alertQueue d @ [a])\<rparr>"
      using q True by (simp add: showAlert_def Let_def)
    then show ?thesis using inv True subseq_drop_head [of "shown d" "alertQueue d" subm a]
      by (simp add: queue_inv_def)
  qed
next
  case False
  then have e: "alertQueue d = []" using inv by (simp add: queue_inv_def)
  show ?thesis
  proof (cases "maxQueueSize opts")
    case 0
    then have "showAlert opts d a = d\<lparr>alertQueue := [], isProcessing := False, awaiting := False\<rparr>"
      using q False e by (simp add: showAlert_def processAlertQueue_def drainStep_def Let_def)
    then show ?thesis using inv e by (simp add: queue_inv_def subseq_rev_drop_many)
  next
    case (Suc n)
    then have "showAlert opts d a =
        d\<lparr>alertQueue := [], isProcessing := True, awaiting := True, shown := shown d @ [a]\<rparr>"
      using q False e by (simp add: showAlert_def processAlertQueue_def drainStep_def Let_def)
    then show ?thesis using inv e subseq_snoc [of "shown d" "[]" subm a]
      by (simp add: queue_inv_def)
  qed
qed

lemma drainStep_inv:
  assumes "queue_inv opts d subm"
  shows "queue_inv opts (drainStep d) subm"
  using assms by (cases "alertQueue d") (simp_all add: drainStep_def queue_inv_def)

lemma step_inv:
  assumes "queueAlerts opts" "queue_inv opts d (submitted evs)"
  shows "queue_inv opts (dispatcher_step opts d ev) (submitted (evs @ [ev]))"
proof (cases ev)
  case (ShowAlert a)
  then show ?thesis using showAlert_inv [OF assms, of a]
    by (simp add: dispatcher_step_def submitted_snoc)
next
  case RenderDone
  then show ?thesis using assms(2) drainStep_inv [OF assms(2)]
    by (simp add: dispatcher_step_def submitted_snoc)
next
  case RenderFailed
  then show ?thesis using assms(2)
    by (simp add: dispatcher_step_def submitted_snoc queue_inv_def)
qed

lemma run_inv:
  assumes "queueAlerts opts"
  shows "queue_inv opts (dispatcher_run opts evs) (submitted evs)"
proof (induction evs rule: rev_induct)
  case Nil
  show ?case by (simp add: dispatcher_run_def new_dispatcher_def queue_inv_def)
next
  case (snoc ev evs)
  have "dispatcher_run opts (evs @ [ev]) = dispatcher_step opts (dispatcher_run opts evs) ev"
    by (simp add: dispatcher_run_def)
  then show ?case using step_inv [OF assms snoc.IH, of ev] by simp
qed

text \<open>
  C8. With queueing enabled, after every sequence of \<^verbatim>\<open>showAlert\<close> calls and
  rendering completions the pending queue holds at most \<^verbatim>\<open>maxQueueSize\<close> alerts
  (10 by default). An alert submitted to a full queue goes to the back and the oldest
  pending alert is dropped; below capacity, with a drain loop active, it is appended and
  nothing is dropped. The drain loop takes the alert at the front. The alerts rendered,
  followed by the pending ones, are in submission order.
\<close>

theorem alert_queue_bounded_fifo:
  assumes "queueAlerts opts"
  shows "length (alertQueue (dispatcher_run opts evs)) \<le> maxQueueSize opts
    \<and> (length (alertQueue (dispatcher_run opts evs)) = maxQueueSize opts
        \<longrightarrow> alertQueue (showAlert opts (dispatcher_run opts evs) a)
              = tl (alertQueue (dispatcher_run opts evs) @ [a]))
    \<and> (length (alertQueue (dispatcher_run opts evs)) < maxQueueSize opts
          \<and> isProcessing (dispatcher_run opts evs)
        \<longrightarrow> alertQueue (showAlert opts (dispatcher_run opts evs) a)
              = alertQueue (dispatcher_run opts evs) @ [a])
    \<and> (alertQueue (dispatcher_run opts evs) \<noteq> []
        \<longrightarrow> alertQueue (drainStep (dispatcher_run opts evs))
              = tl (alertQueue (dispatcher_run opts evs))
            \<and> shown (drainStep (dispatcher_run opts evs))
                = shown (dispatcher_run opts evs) @ [hd (alertQueue (dispatcher_run opts evs))])
    \<and> subseq (shown (dispatcher_run opts evs) @ alertQueue (dispatcher_run opts evs))
        (submitted evs)"
proof -
  define d where "d = dispatcher_run opts evs"
  have inv: "queue_inv opts d (submitted evs)"
    unfolding d_def by (rule run_inv [OF assms])
  have 1: "length (alertQueue d) \<le> maxQueueSize opts"
    and 5: "subseq (shown d @ alertQueue d) (submitted evs)"
    and idle: "isProcessing d \<or> alertQueue d = []"
    using inv by (simp_all add: queue_inv_def)
  have 2: "alertQueue (showAlert opts d a) = tl (alertQueue d @ [a])"
    if "length (alertQueue d) = maxQueueSize opts"
  proof (cases "isProcessing d")
    case True
    then show ?thesis using that assms by (simp add: showAlert_def Let_def)
  next
    case False
    then have "alertQueue d = []" using idle by simp
    then show ?thesis using that assms False
      by (simp add: showAlert_def processAlertQueue_def drainStep_def Let_def)
  qed
  have 3: "alertQueue (showAlert opts d a) = alertQueue d @ [a]"
    if "length (alertQueue d) < maxQueueSize opts \<and> isProcessing d"
    using that assms by (simp add: showAlert_def Let_def)
  have 4: "alertQueue (drainStep d) = tl (alertQueue d)
      \<and> shown (drainStep d) = shown d @ [hd (alertQueue d)]" if "alertQueue d \<noteq> []"
    using that by (cases "alertQueue d") (simp_all add: drainStep_def)
  show ?thesis
    using 1 2 3 4 5 unfolding d_def by blast
qed

lemma eleven_alerts_run:
  "dispatcher_run default_alert_options eleven_alerts =
     \<lparr>alertQueue =
        [numbered_alert 2, numbered_alert 3, numbered_alert 4, numbered_alert 5, numbered_alert 6,
         numbered_alert 7, numbered_alert 8, numbered_alert 9, numbered_alert 10, numbered_alert 11],
      isProcessing = True, awaiting = True, shown = [numbered_alert 1]\<rparr>"
  by (simp add: dispatcher_run_def eleven_alerts_def dispatcher_step_def showAlert_def
        processAlertQueue_def drainStep_def new_dispatcher_def default_alert_options_def Let_def)

theorem alert_queue_bounded_fifo_witness:
  "queueAlerts default_alert_options
   \<and> length (alertQueue (dispatcher_run default_alert_options eleven_alerts))
       = maxQueueSize default_alert_options
   \<and> alertQueue (showAlert default_alert_options
                   (dispatcher_run default_alert_options eleven_alerts) (numbered_alert 12))
       = [numbered_alert 3, numbered_alert 4, numbered_alert 5, numbered_alert 6, numbered_alert 7,
          numbered_alert 8, numbered_alert 9, numbered_alert 10, numbered_alert 11, numbered_alert 12]
   \<and> shown (drainStep (dispatcher_run default_alert_options eleven_alerts))
       = [numbered_alert 1, numbered_alert 2]
   \<and> isProcessing (dispatcher_run default_alert_options [ShowAlert (numbered_alert 1)])
   \<and> alertQueue (showAlert default_alert_options
                   (dispatcher_run default_alert_options [ShowAlert (numbered_alert 1)])
                   (numbered_alert 2)) = [numbered_alert 2]"
proof -
  have one: "dispatcher_run default_alert_options [ShowAlert (numbered_alert 1)] =
      \<lparr>alertQueue = [], isProcessing = True, awaiting = True, shown = [numbered_alert 1]\<rparr>"
    by (simp add: dispatcher_run_def dispatcher_step_def showAlert_def processAlertQueue_def
          drainStep_def new_dispatcher_def default_alert_options_def Let_def)
  have q: "queueAlerts default_alert_options" and m: "maxQueueSize default_alert_options = 10"
    by (simp_all add: default_alert_options_def)
  show ?thesis
    using alert_queue_bounded_fifo [of default_alert_options eleven_alerts "numbered_alert 12"]
      alert_queue_bounded_fifo
        [of default_alert_options "[ShowAlert (numbered_alert 1)]" "numbered_alert 2"]
    by (simp add: eleven_alerts_run one q m)
qed

end
